theory Spec2Isabelle
  imports Complex_Main "HOL-Library.AList" "HOL-Library.Sublist" "HOL-Library.Log_Nat"
begin

section \<open>Data model\<close>

text \<open>
  The dataclass \<^verbatim>\<open>VibeAnalysis\<close> of \<^verbatim>\<open>analyzers/vibe_analyzer.py\<close>. Python does not
  enforce the annotations \<^verbatim>\<open>vibe_tags: list[str]\<close> and \<^verbatim>\<open>description: str\<close>: the
  parser stores whatever the classifier's reply held under these keys. The record is
  therefore polymorphic in the two fields; the parser writes it at the type of decoded
  JSON values, and the aggregator is given at the declared type (a list of strings) here
  and on the parser's records further down.

  \<^verbatim>\<open>energy_level\<close> and \<^verbatim>\<open>crowd_level\<close> are Python integers (unbounded). A finite
  Python float is a rational number, and \<^verbatim>\<open>confidence\<close> is kept as that rational.
\<close>

record ('t, 'd) VibeAnalysis =
  image_url :: string
  energy_level :: int
  crowd_level :: int
  vibe_tags :: 't
  description :: 'd
  confidence :: rat
  success :: bool
  error :: "string option"

text \<open>
  The dictionary returned by \<^verbatim>\<open>ScoutEngine._aggregate_vibes\<close>. Its tags are tags of
  the scores, so it is polymorphic in their type as well; \<open>VibeSummary\<close> is the summary
  with tags that are strings.
\<close>

record 't summary =
  avg_energy :: rat
  avg_crowd :: rat
  top_vibe_tags :: "'t list"
  status :: string
  sample_size :: nat

type_synonym VibeSummary = "string summary"

section \<open>The aggregator: \<^verbatim>\<open>ScoutEngine._aggregate_vibes\<close> (scout.py, lines 153-193)\<close>

text \<open>
  \<^verbatim>\<open>a.success and a.confidence > 0.3\<close>. The literal \<^verbatim>\<open>0.3\<close> is the double nearest to
  3/10, which lies below 3/10, and no double lies between the two: a double exceeds the
  literal exactly when it exceeds 3/10.
\<close>

definition contributes :: "('t, 'd) VibeAnalysis \<Rightarrow> bool" where
  "contributes a = (success a \<and> 3 / 10 < confidence a)"

definition successful :: "('t, 'd) VibeAnalysis list \<Rightarrow> ('t, 'd) VibeAnalysis list" where
  "successful analyses = filter contributes analyses"

text \<open>
  \<^verbatim>\<open>tag_counts\<close> is a Python dict, which keeps its keys in insertion order: an
  association list with one entry per key. \<^verbatim>\<open>tag_counts[tag] = tag_counts.get(tag, 0) + 1\<close>
  overwrites the entry of a key in place and appends the entry of a new key, which is
  what \<^const>\<open>AList.update\<close> does.
\<close>

definition dict_get :: "('k \<times> 'v) list \<Rightarrow> 'k \<Rightarrow> 'v \<Rightarrow> 'v" where
  "dict_get d k dflt = (case map_of d k of None \<Rightarrow> dflt | Some v \<Rightarrow> v)"

definition bump_tag :: "(string \<times> nat) list \<Rightarrow> string \<Rightarrow> (string \<times> nat) list" where
  "bump_tag tag_counts tag = AList.update tag (dict_get tag_counts tag 0 + 1) tag_counts"

definition count_tags :: "(string list, 'd) VibeAnalysis list \<Rightarrow> (string \<times> nat) list" where
  "count_tags scores = foldl (\<lambda>d a. foldl bump_tag d (vibe_tags a)) [] scores"

text \<open>
  \<^verbatim>\<open>sorted(tag_counts.keys(), key=lambda t: tag_counts[t], reverse=True)[:4]\<close>. Python's
  sort is stable, and with \<^verbatim>\<open>reverse=True\<close> elements with equal keys still keep their
  original order: it is the stable sort by descending count, which is the stable
  ascending sort by the negated count.
\<close>

definition top_tags_of :: "(string \<times> nat) list \<Rightarrow> string list" where
  "top_tags_of tag_counts =
     take 4 (sort_key (\<lambda>t. - int (dict_get tag_counts t 0)) (map fst tag_counts))"

text \<open>
  \<^verbatim>\<open>sum(...) / len(successful)\<close> is Python's true division of two integers: the double
  nearest to the exact quotient. The model keeps the exact quotient. Rounding to the
  nearest double is monotone and 5 and 7 are doubles, so the comparisons of the status
  with 5 and 7 agree with those of the exact quotient for every list that fits in memory
  (fewer than \<open>2 ^ 51\<close> scores).
\<close>

definition mean :: "int list \<Rightarrow> rat" where
  "mean ns = rat_of_int (sum_list ns) / rat_of_nat (length ns)"

text \<open>
  The double nearest to a rational number (IEEE 754 binary64, round to nearest, ties to
  even): with \<open>2 ^ e \<le> \<bar>x\<bar> < 2 ^ (e + 1)\<close> the doubles around \<open>x\<close> are the multiples
  of \<open>2 ^ (e - 52)\<close>. The exponent range of a double is not modelled: the quotients of
  the aggregator are means of levels, far from overflow and underflow.
\<close>

definition pow2 :: "int \<Rightarrow> rat" where
  "pow2 n = (if 0 \<le> n then 2 ^ nat n else 1 / 2 ^ nat (- n))"

definition round_half_even :: "rat \<Rightarrow> int" where
  "round_half_even x =
     (let f = \<lfloor>x\<rfloor>; d = x - rat_of_int f
      in if d < 1 / 2 then f
         else if 1 / 2 < d then f + 1
         else if even f then f else f + 1)"

definition floor_log2 :: "rat \<Rightarrow> int" where
  "floor_log2 x =
     (let (p, q) = quotient_of x; d = bitlen p - bitlen q
      in if pow2 d \<le> x then d else d - 1)"

definition to_double :: "rat \<Rightarrow> rat" where
  "to_double x =
     (if x = 0 then 0
      else
        let ulp = pow2 (floor_log2 \<bar>x\<bar> - 52)
        in rat_of_int (round_half_even (x / ulp)) * ulp)"

text \<open>
  \<^verbatim>\<open>round(avg, 1)\<close>, as a function of the exact quotient \<open>x\<close> of the sum and the
  length. \<^verbatim>\<open>avg\<close> is the double nearest to \<open>x\<close>; \<^verbatim>\<open>round\<close> takes the exact value of
  that double to one decimal place, ties to the even digit, and returns the double
  nearest to this decimal. The model keeps the decimal, which is how Python prints the
  double it stands for. So the mean 129/20, whose double lies above 6.45, rounds to 6.5,
  and the mean 127/20, whose double lies below 6.35, rounds to 6.3.
\<close>

definition py_round1 :: "rat \<Rightarrow> rat" where
  "py_round1 x = rat_of_int (round_half_even (to_double x * 10)) / 10"

definition status_of :: "rat \<Rightarrow> rat \<Rightarrow> string" where
  "status_of energy crowd =
     (if 7 \<le> energy \<and> 7 \<le> crowd then ''LIVE''
      else if 5 \<le> energy \<or> 5 \<le> crowd then ''warming_up''
      else ''dead'')"

definition insufficient_data :: VibeSummary where
  "insufficient_data =
     \<lparr>avg_energy = 5, avg_crowd = 5, top_vibe_tags = [''Unknown''],
      status = ''insufficient_data'', sample_size = 0\<rparr>"

definition aggregate_vibes :: "(string list, 'd) VibeAnalysis list \<Rightarrow> VibeSummary" where
  "aggregate_vibes analyses =
     (let succ = successful analyses
      in if succ = [] then insufficient_data
         else
           let energy = mean (map energy_level succ);
               crowd = mean (map crowd_level succ);
               top_tags = top_tags_of (count_tags succ)
           in \<lparr>avg_energy = py_round1 energy,
               avg_crowd = py_round1 crowd,
               top_vibe_tags = (if top_tags = [] then [''Unknown''] else top_tags),
               status = status_of energy crowd,
               sample_size = length succ\<rparr>)"

subsection \<open>Inputs for the examples, and the vocabulary of the tag claim\<close>

text \<open>A score record for the examples: only the fields the aggregator reads vary.\<close>

definition score :: "int \<Rightarrow> int \<Rightarrow> string list \<Rightarrow> rat \<Rightarrow> bool \<Rightarrow> (string list, string) VibeAnalysis" where
  "score e c tags conf ok =
     \<lparr>image_url = ''https://example.com/t.jpg'', energy_level = e, crowd_level = c,
      vibe_tags = tags, description = ''scene'', confidence = conf, success = ok,
      error = None\<rparr>"

text \<open>
  Twenty-five contributing scores: energies 7 (twenty-four times) and 6 (once), mean
  174/25 = 6.96; crowd level 8 throughout.
\<close>

definition near_live :: "(string list, string) VibeAnalysis list" where
  "near_live = replicate 24 (score 7 8 [''House''] 1 True) @ [score 6 8 [''House''] 1 True]"

text \<open>
  Thirty contributing scores: energies 7 (twenty-nine times) and 6 (once), mean
  209/30; crowd level 9 throughout.
\<close>

definition almost_live :: "(string list, string) VibeAnalysis list" where
  "almost_live = replicate 29 (score 7 9 [''Hype''] 1 True) @ [score 6 9 [''Hype''] 1 True]"

text \<open>
  The tags of a list of scores in the order the aggregator's loops visit them, and the
  distinct elements of a list in the order in which each is first seen.
\<close>

definition all_tags :: "(string list, 'd) VibeAnalysis list \<Rightarrow> string list" where
  "all_tags scores = concat (map vibe_tags scores)"

definition first_seen :: "'a list \<Rightarrow> 'a list" where
  "first_seen ts = rev (remdups (rev ts))"

section \<open>The scorer: \<^verbatim>\<open>VibeAnalyzer\<close> (analyzers/vibe_analyzer.py)\<close>

subsection \<open>Exceptions, floats and decoded JSON\<close>

text \<open>
  An exception is its class, as far as the \<^verbatim>\<open>except\<close> clauses of the module tell
  classes apart, and the text \<^verbatim>\<open>str(e)\<close>. \<open>HTTPError\<close> is \<^verbatim>\<open>httpx.HTTPError\<close> and its
  subclasses; \<open>OtherError\<close> is any other subclass of \<^verbatim>\<open>Exception\<close>. Signals that
  derive from \<^verbatim>\<open>BaseException\<close> only (\<^verbatim>\<open>KeyboardInterrupt\<close>, \<^verbatim>\<open>SystemExit\<close>,
  \<^verbatim>\<open>asyncio.CancelledError\<close>) are not failures of a step and are outside the model.
\<close>

datatype exn_class =
  JSONDecodeError | KeyError | TypeError | ValueError | AttributeError | OverflowError
  | HTTPError | OtherError

datatype exn = Exn (exn_class: exn_class) (exn_str: string)

text \<open>A Python float: a finite double (a rational number), an infinity or NaN.\<close>

datatype pyfloat = Finite rat | PosInf | NegInf | NaN

text \<open>
  What \<^verbatim>\<open>json.loads\<close> returns: \<^verbatim>\<open>None\<close>, a bool, an int, a float (the decoder
  accepts \<^verbatim>\<open>NaN\<close>, \<^verbatim>\<open>Infinity\<close> and \<^verbatim>\<open>-Infinity\<close>), a str, a list or a dict. A dict
  is the list of its items, in order, one per key. A str is the list of its characters.
\<close>

datatype json =
  JNull | JBool bool | JInt int | JFloat pyfloat | JString string
  | JArray "json list" | JObject "(string \<times> json) list"

fun type_name :: "json \<Rightarrow> string" where
  "type_name JNull = ''NoneType''"
| "type_name (JBool b) = ''bool''"
| "type_name (JInt n) = ''int''"
| "type_name (JFloat f) = ''float''"
| "type_name (JString s) = ''str''"
| "type_name (JArray xs) = ''list''"
| "type_name (JObject kvs) = ''dict''"

text \<open>
  The standard library functions whose results the module only passes on are
  parameters: the JSON decoder (it raises \<^verbatim>\<open>JSONDecodeError\<close> on malformed text and
  can raise other exceptions, such as \<^verbatim>\<open>RecursionError\<close>), the parsers behind
  \<^verbatim>\<open>int(s)\<close> and \<^verbatim>\<open>float(s)\<close> for a str \<open>s\<close> (\<open>None\<close>: the str is not a literal of
  the type, and the call raises \<^verbatim>\<open>ValueError\<close>), \<^verbatim>\<open>repr\<close> of a str, and the base64
  encoder.
\<close>

record pylib =
  json_loads :: "string \<Rightarrow> exn + json"
  int_of_str :: "string \<Rightarrow> int option"
  float_of_str :: "string \<Rightarrow> pyfloat option"
  repr_str :: "string \<Rightarrow> string"
  b64encode :: "string \<Rightarrow> string"

text \<open>A text between single quotes, as Python's messages show a type name.\<close>

definition quoted :: "string \<Rightarrow> string" where
  "quoted s = [CHR 0x27] @ s @ [CHR 0x27]"

text \<open>Evaluation in sequence: the first exception raised ends the evaluation.\<close>

definition and_then :: "exn + 'a \<Rightarrow> ('a \<Rightarrow> exn + 'b) \<Rightarrow> exn + 'b" where
  "and_then r f = (case r of Inl e \<Rightarrow> Inl e | Inr v \<Rightarrow> f v)"

subsection \<open>The built-in conversions on a decoded value\<close>

text \<open>\<^verbatim>\<open>data.get(key, default)\<close>: defined on a dict only.\<close>

definition py_get :: "json \<Rightarrow> string \<Rightarrow> json \<Rightarrow> exn + json" where
  "py_get data key dflt =
     (case data of
        JObject kvs \<Rightarrow> Inr (dict_get kvs key dflt)
      | _ \<Rightarrow> Inl (Exn AttributeError
               (quoted (type_name data) @ '' object has no attribute '' @ quoted ''get'')))"

text \<open>\<^verbatim>\<open>int(v)\<close>: a float is truncated towards zero.\<close>

definition py_int :: "('z) pylib_scheme \<Rightarrow> json \<Rightarrow> exn + int" where
  "py_int L v =
     (case v of
        JInt n \<Rightarrow> Inr n
      | JBool b \<Rightarrow> Inr (if b then 1 else 0)
      | JFloat (Finite r) \<Rightarrow> Inr (if 0 \<le> r then \<lfloor>r\<rfloor> else \<lceil>r\<rceil>)
      | JFloat NaN \<Rightarrow> Inl (Exn ValueError ''cannot convert float NaN to integer'')
      | JFloat _ \<Rightarrow> Inl (Exn OverflowError ''cannot convert float infinity to integer'')
      | JString s \<Rightarrow>
          (case int_of_str L s of
             Some n \<Rightarrow> Inr n
           | None \<Rightarrow> Inl (Exn ValueError
                       (''invalid literal for int() with base 10: '' @ repr_str L s)))
      | _ \<Rightarrow> Inl (Exn TypeError
               (''int() argument must be a string, a bytes-like object or a real number, not ''
                @ quoted (type_name v))))"

text \<open>
  \<^verbatim>\<open>float(v)\<close>. An int beyond the range of a double raises \<^verbatim>\<open>OverflowError\<close>; an
  int within it is rounded to the nearest double, which the model does not do: the only
  use of the result is the clamp to [0, 1] below, which maps the int and its double to
  the same value.
\<close>

definition py_float :: "('z) pylib_scheme \<Rightarrow> json \<Rightarrow> exn + pyfloat" where
  "py_float L v =
     (case v of
        JFloat f \<Rightarrow> Inr f
      | JInt n \<Rightarrow>
          (if 2 ^ 1024 - 2 ^ 970 \<le> \<bar>n\<bar>
           then Inl (Exn OverflowError ''int too large to convert to float'')
           else Inr (Finite (rat_of_int n)))
      | JBool b \<Rightarrow> Inr (Finite (if b then 1 else 0))
      | JString s \<Rightarrow>
          (case float_of_str L s of
             Some f \<Rightarrow> Inr f
           | None \<Rightarrow> Inl (Exn ValueError
                       (''could not convert string to float: '' @ repr_str L s)))
      | _ \<Rightarrow> Inl (Exn TypeError
               (''float() argument must be a string or a real number, not ''
                @ quoted (type_name v))))"

text \<open>
  \<^verbatim>\<open>v[:4]\<close>: the first four elements of a list, the first four characters of a str.
  Slicing a dict raises \<^verbatim>\<open>TypeError\<close> (unhashable slice) up to Python 3.11 and
  \<^verbatim>\<open>KeyError\<close> from 3.12 on; the one \<^verbatim>\<open>except\<close> clause of the parser catches both,
  and the model raises \<^verbatim>\<open>TypeError\<close>.
\<close>

definition py_slice4 :: "json \<Rightarrow> exn + json" where
  "py_slice4 v =
     (case v of
        JArray xs \<Rightarrow> Inr (JArray (take 4 xs))
      | JString s \<Rightarrow> Inr (JString (take 4 s))
      | JObject kvs \<Rightarrow> Inl (Exn TypeError (''unhashable type: '' @ quoted ''slice''))
      | _ \<Rightarrow> Inl (Exn TypeError
               (quoted (type_name v) @ '' object is not subscriptable'')))"

text \<open>\<^verbatim>\<open>len(v)\<close>, for the values that have a length.\<close>

definition py_len :: "json \<Rightarrow> nat option" where
  "py_len v =
     (case v of
        JArray xs \<Rightarrow> Some (length xs)
      | JString s \<Rightarrow> Some (length s)
      | JObject kvs \<Rightarrow> Some (length kvs)
      | _ \<Rightarrow> None)"

text \<open>
  The order on floats: every comparison with NaN is false. \<^verbatim>\<open>min(1.0, x)\<close> is \<open>x\<close> if
  \<^verbatim>\<open>x < 1.0\<close> and its first argument otherwise; \<^verbatim>\<open>max(0.0, y)\<close> is \<open>y\<close> if
  \<^verbatim>\<open>y > 0.0\<close> and its first argument otherwise. So the clamp of NaN is 1.0, and every
  clamped value is finite.
\<close>

fun float_less :: "pyfloat \<Rightarrow> pyfloat \<Rightarrow> bool" where
  "float_less (Finite a) (Finite b) = (a < b)"
| "float_less NegInf (Finite b) = True"
| "float_less NegInf PosInf = True"
| "float_less (Finite a) PosInf = True"
| "float_less _ _ = False"

definition clamp_confidence :: "pyfloat \<Rightarrow> rat" where
  "clamp_confidence x =
     (let m = (if float_less x (Finite 1) then x else Finite 1);
          y = (if float_less (Finite 0) m then m else Finite 0)
      in case y of Finite r \<Rightarrow> r | _ \<Rightarrow> 0)"

definition clamp_level :: "int \<Rightarrow> int" where
  "clamp_level n = max 1 (min 10 n)"

subsection \<open>\<^verbatim>\<open>_parse_response\<close> (lines 97-130)\<close>

text \<open>
  \<^verbatim>\<open>str.strip()\<close> removes the whitespace characters at both ends: for the characters
  up to U+00FF these are U+0009 to U+000D, U+001C to U+0020, U+0085 and U+00A0.
\<close>

definition is_space :: "char \<Rightarrow> bool" where
  "is_space c =
     (let n = of_char c :: nat
      in (9 \<le> n \<and> n \<le> 13) \<or> (28 \<le> n \<and> n \<le> 32) \<or> n = 133 \<or> n = 160)"

definition strip :: "string \<Rightarrow> string" where
  "strip s = rev (dropWhile is_space (rev (dropWhile is_space s)))"

definition startswith :: "string \<Rightarrow> string \<Rightarrow> bool" where
  "startswith s p = (take (length p) s = p)"

definition fence :: string where
  "fence = [CHR 0x60, CHR 0x60, CHR 0x60]"

text \<open>
  For a text that starts with the fence, \<^verbatim>\<open>text.split(fence)[1]\<close> is what stands
  between that fence and the next one (or the end of the text).
\<close>

fun until_fence :: "string \<Rightarrow> string" where
  "until_fence [] = []"
| "until_fence (c # cs) = (if startswith (c # cs) fence then [] else c # until_fence cs)"

definition clean_text :: "string \<Rightarrow> string" where
  "clean_text response_text =
     (let text = strip response_text;
          text = (if startswith text fence
                  then (let seg = until_fence (drop 3 text)
                        in if startswith seg ''json'' then drop 4 seg else seg)
                  else text)
      in strip text)"

text \<open>
  The record of the three \<^verbatim>\<open>except\<close> branches of the module, which differ in the
  description and the error text only.
\<close>

definition degraded :: "string \<Rightarrow> string \<Rightarrow> string \<Rightarrow> (json, json) VibeAnalysis" where
  "degraded url descr err =
     \<lparr>image_url = url, energy_level = 5, crowd_level = 5,
      vibe_tags = JArray [JString ''Unknown''], description = JString descr,
      confidence = 0, success = False, error = Some err\<rparr>"

text \<open>
  The constructor call of the \<^verbatim>\<open>try\<close> block: Python evaluates the keyword arguments
  in the order written, so the first conversion that raises decides the exception.
\<close>

definition build_analysis :: "('z) pylib_scheme \<Rightarrow> json \<Rightarrow> string \<Rightarrow> exn + (json, json) VibeAnalysis" where
  "build_analysis L data url =
     and_then (and_then (py_get data ''energy_level'' (JInt 5)) (py_int L)) (\<lambda>energy.
     and_then (and_then (py_get data ''crowd_level'' (JInt 5)) (py_int L)) (\<lambda>crowd.
     and_then (and_then (py_get data ''vibe_tags'' (JArray [])) py_slice4) (\<lambda>tags.
     and_then (py_get data ''description'' (JString ''Unable to analyze'')) (\<lambda>descr.
     and_then (and_then (py_get data ''confidence'' (JFloat (Finite (1 / 2)))) (py_float L)) (\<lambda>conf.
       Inr \<lparr>image_url = url,
            energy_level = clamp_level energy,
            crowd_level = clamp_level crowd,
            vibe_tags = tags,
            description = descr,
            confidence = clamp_confidence conf,
            success = True,
            error = None\<rparr>)))))"

definition caught_by_parse :: "exn \<Rightarrow> bool" where
  "caught_by_parse e =
     (exn_class e = JSONDecodeError \<or> exn_class e = KeyError \<or> exn_class e = TypeError)"

definition parse_response :: "('z) pylib_scheme \<Rightarrow> string \<Rightarrow> string \<Rightarrow> exn + (json, json) VibeAnalysis" where
  "parse_response L response_text url =
     (case and_then (json_loads L (clean_text response_text)) (\<lambda>data. build_analysis L data url) of
        Inr v \<Rightarrow> Inr v
      | Inl e \<Rightarrow>
          if caught_by_parse e
          then Inr (degraded url ''Failed to parse analysis'' (''Parse error: '' @ exn_str e))
          else Inl e)"

subsection \<open>\<^verbatim>\<open>_fetch_image_as_base64\<close> (lines 65-95) and \<^verbatim>\<open>analyze_image\<close> (lines 132-196)\<close>

text \<open>
  The response of the HTTP client: what \<^verbatim>\<open>raise_for_status\<close> does (\<open>None\<close>: it
  returns), the \<^verbatim>\<open>content-type\<close> header if there is one, and the body.
\<close>

record http_response =
  raise_for_status :: "exn option"
  content_type :: "string option"
  content :: string

text \<open>
  The world the scorer talks to, on top of the library: the HTTP client's \<^verbatim>\<open>get\<close>, and
  the classifier call together with the access \<^verbatim>\<open>message.content[0].text\<close> to its
  reply (given the media type and the encoded image).
\<close>

record env = pylib +
  http_get :: "string \<Rightarrow> exn + http_response"
  classify :: "string \<Rightarrow> string \<Rightarrow> exn + string"

fun contains :: "string \<Rightarrow> string \<Rightarrow> bool" where
  "contains [] sub = (sub = [])"
| "contains (c # cs) sub = (startswith (c # cs) sub \<or> contains cs sub)"

definition fetch_image_as_base64 :: "env \<Rightarrow> string \<Rightarrow> exn + (string \<times> string)" where
  "fetch_image_as_base64 E url =
     and_then (http_get E url) (\<lambda>response.
       case raise_for_status response of
         Some e \<Rightarrow> Inl e
       | None \<Rightarrow>
           let ct = (case content_type response of None \<Rightarrow> ''image/jpeg'' | Some c \<Rightarrow> c);
               media_type =
                 (if contains ct ''jpeg'' \<or> contains ct ''jpg'' then ''image/jpeg''
                  else if contains ct ''png'' then ''image/png''
                  else if contains ct ''gif'' then ''image/gif''
                  else if contains ct ''webp'' then ''image/webp''
                  else ''image/jpeg'')
           in Inr (b64encode E (content response), media_type))"

text \<open>The \<^verbatim>\<open>try\<close> block of \<^verbatim>\<open>analyze_image\<close>, and the function with its two handlers.\<close>

definition analyze_body :: "env \<Rightarrow> string \<Rightarrow> exn + (json, json) VibeAnalysis" where
  "analyze_body E url =
     and_then (fetch_image_as_base64 E url) (\<lambda>(base64_data, media_type).
     and_then (classify E media_type base64_data) (\<lambda>response_text.
       parse_response E response_text url))"

definition analyze_image :: "env \<Rightarrow> string \<Rightarrow> exn + (json, json) VibeAnalysis" where
  "analyze_image E url =
     (case analyze_body E url of
        Inr v \<Rightarrow> Inr v
      | Inl e \<Rightarrow>
          if exn_class e = HTTPError
          then Inr (degraded url ''Failed to fetch image'' (''HTTP error: '' @ exn_str e))
          else Inr (degraded url ''Analysis failed'' (exn_str e)))"

subsection \<open>Vocabulary of the scorer's claims, and inputs for the examples\<close>

text \<open>The ranges of a score record; \<open>len(vibe_tags)\<close> is defined and at most 4.\<close>

definition in_range :: "(json, json) VibeAnalysis \<Rightarrow> bool" where
  "in_range r =
     (1 \<le> energy_level r \<and> energy_level r \<le> 10 \<and> 1 \<le> crowd_level r \<and> crowd_level r \<le> 10
      \<and> 0 \<le> confidence r \<and> confidence r \<le> 1
      \<and> (\<exists>n. py_len (vibe_tags r) = Some n \<and> n \<le> 4))"

text \<open>
  The values on which \<^verbatim>\<open>int\<close> and \<^verbatim>\<open>float\<close> raise \<^verbatim>\<open>TypeError\<close>, and those on
  which the slice does.
\<close>

definition number_rejected :: "json \<Rightarrow> bool" where
  "number_rejected v = (case v of JNull \<Rightarrow> True | JArray xs \<Rightarrow> True | JObject kvs \<Rightarrow> True | _ \<Rightarrow> False)"

definition slice_rejected :: "json \<Rightarrow> bool" where
  "slice_rejected v = (case v of JArray xs \<Rightarrow> False | JString s \<Rightarrow> False | _ \<Rightarrow> True)"

definition returns :: "exn + 'a \<Rightarrow> bool" where
  "returns r = (case r of Inl e \<Rightarrow> False | Inr v \<Rightarrow> True)"

text \<open>
  The items of a decoded object make the conversions fail on a type: the first field, in
  the order energy level, crowd level, tags, confidence, whose conversion raises has a
  value of a type that the conversion rejects.
\<close>

definition type_failure :: "('z) pylib_scheme \<Rightarrow> (string \<times> json) list \<Rightarrow> bool" where
  "type_failure L kvs =
     (let e = dict_get kvs ''energy_level'' (JInt 5);
          c = dict_get kvs ''crowd_level'' (JInt 5);
          t = dict_get kvs ''vibe_tags'' (JArray []);
          f = dict_get kvs ''confidence'' (JFloat (Finite (1 / 2)))
      in number_rejected e
         \<or> (returns (py_int L e) \<and> number_rejected c)
         \<or> (returns (py_int L e) \<and> returns (py_int L c) \<and> slice_rejected t)
         \<or> (returns (py_int L e) \<and> returns (py_int L c) \<and> returns (py_slice4 t)
              \<and> number_rejected f))"

text \<open>The defaults that the parser passes to \<^verbatim>\<open>data.get\<close>.\<close>

definition field_defaults :: "(string \<times> json) list" where
  "field_defaults =
     [(''energy_level'', JInt 5), (''crowd_level'', JInt 5), (''vibe_tags'', JArray []),
      (''description'', JString ''Unable to analyze''), (''confidence'', JFloat (Finite (1 / 2)))]"

text \<open>
  Environments for the examples. The image arrives as a PNG; the classifier's outcome
  and the decoder are given. No example converts a str to a number, so the two parsers
  of the library are never called there. \<open>decoder_at text data\<close> is a decoder known at
  one text, where it returns \<open>data\<close>; it is used at that text, and at a text that is not
  JSON, where it raises as \<^verbatim>\<open>json.loads\<close> does.
\<close>

definition decoder_at :: "string \<Rightarrow> json \<Rightarrow> string \<Rightarrow> exn + json" where
  "decoder_at text data t =
     (if t = text then Inr data
      else Inl (Exn JSONDecodeError ''Expecting value: line 1 column 1 (char 0)''))"

definition example_env :: "(exn + http_response) \<Rightarrow> (exn + string) \<Rightarrow> (string \<Rightarrow> exn + json) \<Rightarrow> env" where
  "example_env got reply loads =
     \<lparr>json_loads = loads, int_of_str = (\<lambda>s. None), float_of_str = (\<lambda>s. None),
      repr_str = quoted, b64encode = (\<lambda>b. ''aW1n''),
      http_get = (\<lambda>u. got), classify = (\<lambda>m d. reply)\<rparr>"

definition png_response :: http_response where
  "png_response = \<lparr>raise_for_status = None, content_type = Some ''image/png'', content = ''img''\<rparr>"

definition thumb :: string where
  "thumb = ''https://cdn.example.com/t1.jpg''"

text \<open>
  Decoded replies: out of range in every field; an object whose \<^verbatim>\<open>energy_level\<close> is
  \<^verbatim>\<open>null\<close>.
\<close>

definition wild_reply :: json where
  "wild_reply =
     JObject [(''energy_level'', JInt 99), (''crowd_level'', JFloat (Finite (- 7 / 2))),
              (''vibe_tags'', JArray [JString ''A'', JString ''B'', JString ''C'', JString ''D'',
                                    JString ''E'', JString ''F'']),
              (''description'', JString ''packed''), (''confidence'', JFloat NaN)]"

definition null_energy_reply :: json where
  "null_energy_reply = JObject [(''energy_level'', JNull), (''crowd_level'', JInt 6)]"

text \<open>The reply texts of the examples, written with their double quotes.\<close>

definition dq :: "string \<Rightarrow> string" where
  "dq s = [CHR 0x22] @ s @ [CHR 0x22]"

definition wild_text :: string where
  "wild_text =
     ''{'' @ dq ''energy_level'' @ '': 99, '' @ dq ''crowd_level'' @ '': -3.5, ''
     @ dq ''vibe_tags'' @ '': ['' @ dq ''A'' @ '', '' @ dq ''B'' @ '', '' @ dq ''C'' @ '', ''
     @ dq ''D'' @ '', '' @ dq ''E'' @ '', '' @ dq ''F'' @ ''], ''
     @ dq ''description'' @ '': '' @ dq ''packed'' @ '', '' @ dq ''confidence'' @ '': NaN}''"

definition fenced :: "string \<Rightarrow> string" where
  "fenced body = fence @ ''json'' @ [CHR 0x0A] @ body @ [CHR 0x0A] @ fence"

definition null_energy_text :: string where
  "null_energy_text =
     ''{'' @ dq ''energy_level'' @ '': null, '' @ dq ''crowd_level'' @ '': 6}''"

section \<open>The scraper: \<^verbatim>\<open>InstagramLocationScraper\<close> (scrapers/instagram_scraper.py)\<close>

text \<open>The dataclass \<^verbatim>\<open>MediaItem\<close>.\<close>

record MediaItem =
  url :: string
  thumbnail_url :: string
  media_type :: string
  shortcode :: string
  scraped_at :: string

text \<open>
  The dataclass \<^verbatim>\<open>ScrapeResult\<close>. Its fields \<^verbatim>\<open>scraped_at\<close>, \<^verbatim>\<open>success\<close> and
  \<^verbatim>\<open>error\<close> carry a prefix here, since the names are taken by the records above.
\<close>

record ScrapeResult =
  location_url :: string
  location_name :: "string option"
  media_items :: "MediaItem list"
  result_scraped_at :: string
  scrape_success :: bool
  scrape_error :: "string option"

subsection \<open>\<^verbatim>\<open>_extract_media_from_page\<close> (lines 105-163)\<close>

text \<open>
  A post link of the page, as the answers of the browser to the three calls the loop
  makes on it: \<^verbatim>\<open>get_attribute("href")\<close>; \<^verbatim>\<open>query_selector("img")\<close>, with the
  answer of the image (if there is one) to \<^verbatim>\<open>get_attribute("src")\<close>; and whether
  \<^verbatim>\<open>query_selector\<close> finds a video or reel icon. Each call can raise.
\<close>

record link =
  get_href :: "exn + string option"
  query_img :: "exn + (exn + string option) option"
  query_video :: "exn + bool"

text \<open>
  \<^verbatim>\<open>re.search(r'/p/([A-Za-z0-9_-]+)', href)\<close>: the leftmost place where \<^verbatim>\<open>/p/\<close> is
  followed by a character of the class, and there the longest run of such characters.
\<close>

definition is_code_char :: "char \<Rightarrow> bool" where
  "is_code_char c =
     (let n = of_char c :: nat
      in (65 \<le> n \<and> n \<le> 90) \<or> (97 \<le> n \<and> n \<le> 122) \<or> (48 \<le> n \<and> n \<le> 57)
         \<or> n = 95 \<or> n = 45)"

fun search_shortcode :: "string \<Rightarrow> string option" where
  "search_shortcode [] = None"
| "search_shortcode (c # cs) =
     (if startswith (c # cs) ''/p/'' \<and> takeWhile is_code_char (drop 3 (c # cs)) \<noteq> []
      then Some (takeWhile is_code_char (drop 3 (c # cs)))
      else search_shortcode cs)"

text \<open>\<^verbatim>\<open>xs[:n]\<close>: a negative \<open>n\<close> counts from the end.\<close>

definition py_take :: "int \<Rightarrow> 'a list \<Rightarrow> 'a list" where
  "py_take n xs = (if 0 \<le> n then take (nat n) xs else take (length xs - nat (- n)) xs)"

text \<open>
  The body of the \<^verbatim>\<open>for\<close> loop on one link, given the set \<^verbatim>\<open>seen_shortcodes\<close>:
  the link is skipped and the state stays as it is; or its shortcode is added to the set
  and an exception after that ends the \<^verbatim>\<open>try\<close> (the exception is printed and the loop
  goes on); or the shortcode is added and an item appended. \<open>now\<close> is the reading of
  the clock.
\<close>

datatype visit = Skipped | Marked string | Added MediaItem

definition visit_link :: "string \<Rightarrow> link \<Rightarrow> string set \<Rightarrow> visit" where
  "visit_link now l seen =
     (case get_href l of
        Inl e \<Rightarrow> Skipped
      | Inr None \<Rightarrow> Skipped
      | Inr (Some href) \<Rightarrow>
          if href = [] then Skipped
          else
            case search_shortcode href of
              None \<Rightarrow> Skipped
            | Some code \<Rightarrow>
                if code \<in> seen then Skipped
                else
                  case query_img l of
                    Inl e \<Rightarrow> Marked code
                  | Inr (Some (Inl e)) \<Rightarrow> Marked code
                  | Inr img \<Rightarrow>
                      case query_video l of
                        Inl e \<Rightarrow> Marked code
                      | Inr video_indicator \<Rightarrow>
                          Added
                            \<lparr>url = ''https://www.instagram.com/p/'' @ code @ ''/'',
                             thumbnail_url =
                               (case img of Some (Inr (Some src)) \<Rightarrow> src | _ \<Rightarrow> []),
                             media_type = (if video_indicator then ''video'' else ''image''),
                             shortcode = code,
                             scraped_at = now\<rparr>)"

text \<open>
  The loop, with its state: the set \<^verbatim>\<open>seen_shortcodes\<close> and the list
  \<^verbatim>\<open>media_items\<close>. It breaks when the list has \<^verbatim>\<open>max_items\<close> elements.
\<close>

fun extract_loop :: "int \<Rightarrow> string \<Rightarrow> link list \<Rightarrow> string set \<Rightarrow> MediaItem list \<Rightarrow> MediaItem list" where
  "extract_loop max_items now [] seen items = items"
| "extract_loop max_items now (l # ls) seen items =
     (if max_items \<le> int (length items) then items
      else
        case visit_link now l seen of
          Skipped \<Rightarrow> extract_loop max_items now ls seen items
        | Marked code \<Rightarrow> extract_loop max_items now ls (insert code seen) items
        | Added item \<Rightarrow>
            extract_loop max_items now ls (insert (shortcode item) seen) (items @ [item]))"

text \<open>
  The function: \<open>found\<close> is the outcome of \<^verbatim>\<open>page.query_selector_all\<close> (and of the
  wait before it), whose exception is not caught here.
\<close>

definition extract_media_from_page :: "(exn + link list) \<Rightarrow> int \<Rightarrow> string \<Rightarrow> exn + MediaItem list" where
  "extract_media_from_page found max_items now =
     (case found of
        Inl e \<Rightarrow> Inl e
      | Inr post_links \<Rightarrow> Inr (extract_loop max_items now (py_take (max_items * 2) post_links) {} []))"

text \<open>The shortcode that the loop reads off a link, if the link gives one.\<close>

definition link_code :: "link \<Rightarrow> string option" where
  "link_code l =
     (case get_href l of
        Inr (Some href) \<Rightarrow> (if href = [] then None else search_shortcode href)
      | _ \<Rightarrow> None)"

subsection \<open>\<^verbatim>\<open>scrape_location\<close> (lines 176-268)\<close>

text \<open>
  What the browser does in one attempt. \<open>setup_browser\<close>: \<^verbatim>\<open>_setup_browser\<close> raises
  (then the variables \<^verbatim>\<open>browser\<close> and \<^verbatim>\<open>playwright\<close> keep their values) or returns
  a new session. \<open>goto\<close>: the steps up to \<^verbatim>\<open>page.goto\<close> raise, or the call returns
  \<^verbatim>\<open>None\<close> or a response with a status. \<open>login_wall\<close>: the query for the login
  form. \<open>h1_text\<close>: the result of \<^verbatim>\<open>_get_location_name\<close>, which catches its own
  exceptions. \<open>post_links\<close> and \<open>post_links_scrolled\<close>: the links found before and
  after the scroll. Closing a session is taken to return.
\<close>

datatype nav = NavRaises exn | NavNone | NavStatus int

record attempt =
  setup_browser :: "exn option"
  goto :: nav
  login_wall :: "exn + bool"
  h1_text :: "string option"
  post_links :: "exn + link list"
  post_links_scrolled :: "exn + link list"

text \<open>
  The sessions are numbered by the attempt that opened them. The log records every
  session opened and every \<^verbatim>\<open>browser.close()\<close> (with its \<^verbatim>\<open>playwright.stop()\<close>), in
  order.
\<close>

datatype event = Opened nat | Closed nat

fun digit :: "nat \<Rightarrow> char" where
  "digit n = char_of (48 + n)"

fun str_nat :: "nat \<Rightarrow> string" where
  "str_nat n = (if n < 10 then [digit n] else str_nat (n div 10) @ [digit (n mod 10)])"

definition str_int :: "int \<Rightarrow> string" where
  "str_int i = (if i < 0 then CHR ''-'' # str_nat (nat (- i)) else str_nat (nat i))"

definition failure_result :: "string \<Rightarrow> string \<Rightarrow> string \<Rightarrow> ScrapeResult" where
  "failure_result loc now err =
     \<lparr>location_url = loc, location_name = None, media_items = [], result_scraped_at = now,
      scrape_success = False, scrape_error = Some err\<rparr>"

text \<open>
  The \<^verbatim>\<open>try\<close> block of one attempt after the session is set up: it raises, or it is
  rate limited (status 429: \<^verbatim>\<open>continue\<close>), or it comes to the extraction and yields
  the name and the items.
\<close>

datatype outcome = Raised exn | RateLimited | Extracted "string option" "MediaItem list"

definition try_body :: "attempt \<Rightarrow> int \<Rightarrow> string \<Rightarrow> outcome" where
  "try_body a max_items now =
     (case goto a of
        NavRaises e \<Rightarrow> Raised e
      | NavStatus st \<Rightarrow>
          if st = 429 then RateLimited
          else if st \<noteq> 200 then Raised (Exn OtherError (''HTTP '' @ str_int st))
          else
            (case login_wall a of
               Inl e \<Rightarrow> Raised e
             | Inr True \<Rightarrow>
                 Raised (Exn OtherError ''Login required - Instagram blocking anonymous scraping'')
             | Inr False \<Rightarrow>
                 (case extract_media_from_page (post_links a) max_items now of
                    Inl e \<Rightarrow> Raised e
                  | Inr items \<Rightarrow>
                      if items = []
                      then (case extract_media_from_page (post_links_scrolled a) max_items now of
                              Inl e \<Rightarrow> Raised e
                            | Inr items' \<Rightarrow> Extracted (h1_text a) items')
                      else Extracted (h1_text a) items))
      | NavNone \<Rightarrow>
            (case login_wall a of
               Inl e \<Rightarrow> Raised e
             | Inr True \<Rightarrow>
                 Raised (Exn OtherError ''Login required - Instagram blocking anonymous scraping'')
             | Inr False \<Rightarrow>
                 (case extract_media_from_page (post_links a) max_items now of
                    Inl e \<Rightarrow> Raised e
                  | Inr items \<Rightarrow>
                      if items = []
                      then (case extract_media_from_page (post_links_scrolled a) max_items now of
                              Inl e \<Rightarrow> Raised e
                            | Inr items' \<Rightarrow> Extracted (h1_text a) items')
                      else Extracted (h1_text a) items)))"

text \<open>
  The \<^verbatim>\<open>except\<close> branch closes the session that the variable \<^verbatim>\<open>browser\<close> holds, if
  it holds one.
\<close>

definition close_held :: "nat option \<Rightarrow> event list \<Rightarrow> event list" where
  "close_held browser trail = (case browser of None \<Rightarrow> trail | Some s \<Rightarrow> trail @ [Closed s])"

text \<open>
  The loop \<^verbatim>\<open>for attempt in range(self.max_retries)\<close>, over the list of the attempt
  numbers still to run. \<open>world\<close> tells what the browser does in each attempt; \<open>browser\<close>
  is the variable of that name (the session it holds) and \<open>trail\<close> the events so far.
  \<^verbatim>\<open>max_retries\<close> is a natural number: \<^verbatim>\<open>range\<close> of a negative number is empty, as
  that of 0 is. The pauses before a retry change the timing only.
\<close>

fun scrape_attempts ::
  "(nat \<Rightarrow> attempt) \<Rightarrow> nat \<Rightarrow> string \<Rightarrow> int \<Rightarrow> string \<Rightarrow> nat list \<Rightarrow> nat option \<Rightarrow> event list
   \<Rightarrow> ScrapeResult \<times> event list" where
  "scrape_attempts world max_retries loc max_items now [] browser trail =
     (failure_result loc now ''Max retries exceeded'', trail)"
| "scrape_attempts world max_retries loc max_items now (n # rest) browser trail =
     (case setup_browser (world n) of
        Some e \<Rightarrow>
          if Suc n = max_retries then (failure_result loc now (exn_str e), close_held browser trail)
          else scrape_attempts world max_retries loc max_items now rest browser
                 (close_held browser trail)
      | None \<Rightarrow>
          (case try_body (world n) max_items now of
             RateLimited \<Rightarrow>
               scrape_attempts world max_retries loc max_items now rest (Some n)
                 (trail @ [Opened n])
           | Extracted name items \<Rightarrow>
               (\<lparr>location_url = loc, location_name = name, media_items = items,
                 result_scraped_at = now, scrape_success = True, scrape_error = None\<rparr>,
                trail @ [Opened n, Closed n])
           | Raised e \<Rightarrow>
               if Suc n = max_retries
               then (failure_result loc now (exn_str e), close_held (Some n) (trail @ [Opened n]))
               else scrape_attempts world max_retries loc max_items now rest (Some n)
                      (close_held (Some n) (trail @ [Opened n]))))"

definition scrape_location :: "(nat \<Rightarrow> attempt) \<Rightarrow> nat \<Rightarrow> string \<Rightarrow> int \<Rightarrow> string \<Rightarrow> ScrapeResult \<times> event list" where
  "scrape_location world max_retries loc max_items now =
     scrape_attempts world max_retries loc max_items now [0..<max_retries] None []"

subsection \<open>Pages for the examples\<close>

text \<open>
  A link to the post with the given shortcode, with a thumbnail (or with no image
  element), and a page of four links in which the first post appears twice.
\<close>

definition post_link :: "string \<Rightarrow> string option \<Rightarrow> link" where
  "post_link code img =
     \<lparr>get_href = Inr (Some (''/p/'' @ code @ ''/'')),
      query_img = Inr (case img of None \<Rightarrow> None | Some src \<Rightarrow> Some (Inr (Some src))),
      query_video = Inr False\<rparr>"

definition grid :: "link list" where
  "grid =
     [post_link ''Cx1'' (Some ''https://cdn.example.com/1.jpg''),
      post_link ''Cx1'' (Some ''https://cdn.example.com/1.jpg''),
      post_link ''Cy_2'' (Some ''https://cdn.example.com/2.jpg''),
      post_link ''Cz-3'' None]"

definition clock :: string where
  "clock = ''2024-05-01T22:15:00''"

text \<open>
  Attempts for the examples: one that loads the page and finds the links of
  \<^const>\<open>grid\<close>, and one that is answered with status 429. \<open>limited_once\<close> is rate
  limited in the first attempt only, \<open>limited_always\<close> in every attempt.
\<close>

definition ok_attempt :: attempt where
  "ok_attempt =
     \<lparr>setup_browser = None, goto = NavStatus 200, login_wall = Inr False,
      h1_text = Some ''Club Nova'', post_links = Inr grid, post_links_scrolled = Inr grid\<rparr>"

definition limited_attempt :: attempt where
  "limited_attempt = ok_attempt\<lparr>goto := NavStatus 429\<rparr>"

definition limited_once :: "nat \<Rightarrow> attempt" where
  "limited_once n = (if n = 0 then limited_attempt else ok_attempt)"

definition limited_always :: "nat \<Rightarrow> attempt" where
  "limited_always n = limited_attempt"

definition venue :: string where
  "venue = ''https://www.instagram.com/explore/locations/123456/club-nova/''"

text \<open>
  A log in which every session opened is closed before the next event: a sequence of
  pairs \<open>Opened n, Closed n\<close>.
\<close>

fun balanced :: "event list \<Rightarrow> bool" where
  "balanced [] = True"
| "balanced (Opened a # Closed b # es) = (a = b \<and> balanced es)"
| "balanced es = False"

section \<open>The aggregator on the records that the scorer delivers\<close>

text \<open>
  The parser checks no element of \<^verbatim>\<open>vibe_tags\<close>, so the records that reach
  \<^verbatim>\<open>_aggregate_vibes\<close> in a run hold decoded JSON values as tags. This section is the
  same function (scout.py, lines 153-193) on such records, where the loop over the tags
  and the dict can raise.

  \<^verbatim>\<open>for tag in analysis.vibe_tags\<close>: the elements of a list, the characters of a str,
  the keys of a dict; any other value is not iterable.
\<close>

definition iter_tags :: "json \<Rightarrow> exn + json list" where
  "iter_tags v =
     (case v of
        JArray vs \<Rightarrow> Inr vs
      | JString s \<Rightarrow> Inr (map (\<lambda>c. JString [c]) s)
      | JObject kvs \<Rightarrow> Inr (map (\<lambda>kv. JString (fst kv)) kvs)
      | _ \<Rightarrow> Inl (Exn TypeError (quoted (type_name v) @ '' object is not iterable'')))"

text \<open>
  A dict key: values that are equal (and so hash alike) are one key. A str equals only
  the same str; \<^verbatim>\<open>True\<close>, \<^verbatim>\<open>1\<close> and \<^verbatim>\<open>1.0\<close> are equal, as numbers are compared by
  value; \<^verbatim>\<open>None\<close> equals itself. The decoder returns one and the same object for every
  \<^verbatim>\<open>NaN\<close>, which the dict finds by identity. A list and a dict are unhashable.
\<close>

datatype key = KStr string | KNum rat | KNone | KNaN | KInf bool

definition key_of :: "json \<Rightarrow> key option" where
  "key_of v =
     (case v of
        JString s \<Rightarrow> Some (KStr s)
      | JInt n \<Rightarrow> Some (KNum (rat_of_int n))
      | JBool b \<Rightarrow> Some (KNum (if b then 1 else 0))
      | JFloat (Finite r) \<Rightarrow> Some (KNum r)
      | JFloat NaN \<Rightarrow> Some KNaN
      | JFloat PosInf \<Rightarrow> Some (KInf True)
      | JFloat NegInf \<Rightarrow> Some (KInf False)
      | JNull \<Rightarrow> Some KNone
      | _ \<Rightarrow> None)"

text \<open>
  \<^verbatim>\<open>tag_counts[tag] = tag_counts.get(tag, 0) + 1\<close>: the dict keeps, for each key in
  insertion order, the tag that was inserted first and the count.
\<close>

definition bump_tag_dyn :: "(key \<times> json \<times> nat) list \<Rightarrow> json \<Rightarrow> exn + (key \<times> json \<times> nat) list" where
  "bump_tag_dyn tag_counts tag =
     (case key_of tag of
        None \<Rightarrow> Inl (Exn TypeError (''unhashable type: '' @ quoted (type_name tag)))
      | Some k \<Rightarrow>
          Inr (case map_of tag_counts k of
                 None \<Rightarrow> AList.update k (tag, 1) tag_counts
               | Some (first, n) \<Rightarrow> AList.update k (first, n + 1) tag_counts))"

text \<open>A loop whose body can raise: the first exception ends it.\<close>

fun fold_exn :: "('s \<Rightarrow> 'a \<Rightarrow> exn + 's) \<Rightarrow> 's \<Rightarrow> 'a list \<Rightarrow> exn + 's" where
  "fold_exn f s [] = Inr s"
| "fold_exn f s (x # xs) = and_then (f s x) (\<lambda>s'. fold_exn f s' xs)"

definition count_tags_dyn :: "(json, 'd) VibeAnalysis list \<Rightarrow> exn + (key \<times> json \<times> nat) list" where
  "count_tags_dyn scores =
     fold_exn (\<lambda>d a. and_then (iter_tags (vibe_tags a)) (fold_exn bump_tag_dyn d)) [] scores"

definition count_of :: "(key \<times> json \<times> nat) list \<Rightarrow> json \<Rightarrow> nat" where
  "count_of tag_counts tag =
     (case key_of tag of
        None \<Rightarrow> 0
      | Some k \<Rightarrow> (case map_of tag_counts k of None \<Rightarrow> 0 | Some (first, n) \<Rightarrow> n))"

definition top_tags_dyn :: "(key \<times> json \<times> nat) list \<Rightarrow> json list" where
  "top_tags_dyn tag_counts =
     take 4 (sort_key (\<lambda>t. - int (count_of tag_counts t)) (map (\<lambda>e. fst (snd e)) tag_counts))"

definition aggregate_vibes_dyn :: "(json, 'd) VibeAnalysis list \<Rightarrow> exn + json summary" where
  "aggregate_vibes_dyn found =
     (let succ = successful found
      in if succ = []
         then Inr \<lparr>avg_energy = 5, avg_crowd = 5, top_vibe_tags = [JString ''Unknown''],
                   status = ''insufficient_data'', sample_size = 0\<rparr>
         else
           let energy = mean (map energy_level succ);
               crowd = mean (map crowd_level succ)
           in and_then (count_tags_dyn succ) (\<lambda>tag_counts.
                let top_tags = top_tags_dyn tag_counts
                in Inr \<lparr>avg_energy = py_round1 energy,
                        avg_crowd = py_round1 crowd,
                        top_vibe_tags = (if top_tags = [] then [JString ''Unknown''] else top_tags),
                        status = status_of energy crowd,
                        sample_size = length succ\<rparr>))"






section \<open>The orchestrator: \<^verbatim>\<open>ScoutEngine.scout_location\<close> (scout.py, lines 45-151)\<close>

text \<open>
  \<^verbatim>\<open>analyze_batch\<close> (vibe_analyzer.py, lines 198-223) starts one task per URL and
  awaits \<^verbatim>\<open>asyncio.gather\<close>, which returns the results in the order of the tasks and
  raises the exception of a task that raises; the semaphore and the pause change the
  timing only. \<open>envs i\<close> is the world that the call for the \<open>i\<close>-th URL meets.
\<close>

fun gather :: "(exn + 'a) list \<Rightarrow> exn + 'a list" where
  "gather [] = Inr []"
| "gather (r # rs) = and_then r (\<lambda>v. and_then (gather rs) (\<lambda>vs. Inr (v # vs)))"

definition analyze_batch :: "(nat \<Rightarrow> env) \<Rightarrow> string list \<Rightarrow> exn + (json, json) VibeAnalysis list" where
  "analyze_batch envs image_urls =
     gather (map (\<lambda>(i, u). analyze_image (envs i) u) (zip [0..<length image_urls] image_urls))"

text \<open>
  \<^verbatim>\<open>', '.join(tags)\<close>, which the report print of line 145 evaluates: every element
  has to be a str.
\<close>

fun py_join :: "nat \<Rightarrow> json list \<Rightarrow> exn + string" where
  "py_join i [] = Inr []"
| "py_join i (JString s # ts) =
     and_then (py_join (Suc i) ts) (\<lambda>joined. Inr (if ts = [] then s else s @ '', '' @ joined))"
| "py_join i (t # ts) =
     Inl (Exn TypeError (''sequence item '' @ str_nat i @ '': expected str instance, ''
                         @ type_name t @ '' found''))"

text \<open>
  The three dictionaries that \<^verbatim>\<open>scout_location\<close> returns: after a failed scrape
  (\<^verbatim>\<open>success\<close> false, with the error, the location URL and the time); after a scrape
  without posts (\<^verbatim>\<open>post_count\<close> 0, \<^verbatim>\<open>vibe_summary\<close> \<^verbatim>\<open>None\<close> and a message); and
  the full report. A post of the report is the tuple of its URL, thumbnail URL, media type
  and shortcode.
\<close>

record full_report =
  report_location_url :: string
  report_location_name :: "string option"
  post_count :: nat
  report_scraped_at :: string
  posts :: "(string \<times> string \<times> string \<times> string) list"
  analyses :: "(json, json) VibeAnalysis list"
  vibe_summary :: "json summary option"

datatype report =
    ScrapeFailed "string option" string string
  | NoPosts string "string option" string string
  | Report full_report

text \<open>
  The function. \<open>scrape\<close> is \<^verbatim>\<open>self.scraper.scrape_location\<close>, which returns a
  \<^verbatim>\<open>ScrapeResult\<close> in every case. The batch, the aggregator and the print of the
  report can raise, and then no report is returned.
\<close>

definition scout_location ::
  "(string \<Rightarrow> int \<Rightarrow> ScrapeResult) \<Rightarrow> (nat \<Rightarrow> env) \<Rightarrow> string \<Rightarrow> int \<Rightarrow> bool \<Rightarrow> exn + report" where
  "scout_location scrape envs loc max_posts analyze_images =
     (let scrape_result = scrape loc max_posts
      in if \<not> scrape_success scrape_result
         then Inr (ScrapeFailed (scrape_error scrape_result) loc (result_scraped_at scrape_result))
         else if media_items scrape_result = []
         then Inr (NoPosts loc (location_name scrape_result) ''No posts found at this location''
                (result_scraped_at scrape_result))
         else
           and_then
             (if analyze_images
              then
                let thumbnail_urls =
                      map thumbnail_url
                        (filter (\<lambda>item. thumbnail_url item \<noteq> []) (media_items scrape_result))
                in if thumbnail_urls \<noteq> [] then analyze_batch envs thumbnail_urls else Inr []
              else Inr [])
             (\<lambda>found.
           and_then
             (if found \<noteq> [] then and_then (aggregate_vibes_dyn found) (\<lambda>s. Inr (Some s))
              else Inr None)
             (\<lambda>summary.
           and_then
             (case summary of
                None \<Rightarrow> Inr []
              | Some s \<Rightarrow> py_join 0 (top_vibe_tags s))
             (\<lambda>printed.
                Inr (Report
                  \<lparr>report_location_url = loc,
                   report_location_name = location_name scrape_result,
                   post_count = length (media_items scrape_result),
                   report_scraped_at = result_scraped_at scrape_result,
                   posts = map (\<lambda>item. (url item, thumbnail_url item, media_type item, shortcode item))
                             (media_items scrape_result),
                   analyses = found,
                   vibe_summary = summary\<rparr>)))))"

subsection \<open>Collaborators for the examples\<close>


definition scrape_page :: "link list \<Rightarrow> string \<Rightarrow> int \<Rightarrow> ScrapeResult" where
  "scrape_page page loc max_items =
     fst (scrape_location
            (\<lambda>n. ok_attempt\<lparr>post_links := Inr page, post_links_scrolled := Inr page\<rparr>)
            3 loc max_items clock)"


definition techno_text :: string where
  "techno_text =
     ''{'' @ dq ''energy_level'' @ '': 8, '' @ dq ''crowd_level'' @ '': 7, ''
     @ dq ''vibe_tags'' @ '': ['' @ dq ''Techno'' @ '', '' @ dq ''Dark'' @ ''], ''
     @ dq ''description'' @ '': '' @ dq ''a packed dance floor'' @ '', ''
     @ dq ''confidence'' @ '': 0.9}''"


definition nested_reply :: json where
  "nested_reply =
     JObject [(''energy_level'', JInt 8), (''crowd_level'', JInt 7),
              (''vibe_tags'', JArray [JArray [JString ''Techno'']]),
              (''confidence'', JFloat (Finite (9 / 10)))]"

definition nested_text :: string where
  "nested_text =
     ''{'' @ dq ''energy_level'' @ '': 8, '' @ dq ''crowd_level'' @ '': 7, ''
     @ dq ''vibe_tags'' @ '': [['' @ dq ''Techno'' @ '']], ''
     @ dq ''confidence'' @ '': 0.9}''"

definition nested_env :: "nat \<Rightarrow> env" where
  "nested_env i = example_env (Inr png_response) (Inr nested_text) (decoder_at nested_text nested_reply)"

section \<open>Properties of the aggregator\<close>

lemma status_of_cases:
  "status_of e c = ''LIVE'' \<or> status_of e c = ''warming_up'' \<or> status_of e c = ''dead''"
  by (simp add: status_of_def)

lemma aggregate_vibes_contributing:
  "successful xs \<noteq> [] \<Longrightarrow>
   status (aggregate_vibes xs) =
     status_of (mean (map energy_level (successful xs))) (mean (map crowd_level (successful xs)))"
  by (simp add: aggregate_vibes_def Let_def)

text \<open>
  Claim C1. When at least one score contributes (\<^verbatim>\<open>success\<close> and
  \<^verbatim>\<open>confidence > 0.3\<close>), the status is \<^verbatim>\<open>LIVE\<close> if the arithmetic mean of the
  contributing energies is at least 7 and that of the contributing crowd levels is at
  least 7; otherwise \<^verbatim>\<open>warming_up\<close> if one of the two means is at least 5; otherwise
  \<^verbatim>\<open>dead\<close>. The means are written as sums over the contributing scores divided by
  their number. In particular the means (8, 7.5) give \<^verbatim>\<open>LIVE\<close>, (6, 3) give
  \<^verbatim>\<open>warming_up\<close> and (3, 2) give \<^verbatim>\<open>dead\<close>.
\<close>

theorem status_classification:
  fixes xs :: "(string list, 'd) VibeAnalysis list"
  defines "cs \<equiv> filter (\<lambda>a. success a \<and> 3 / 10 < confidence a) xs"
  defines "e \<equiv> rat_of_int (\<Sum>a\<leftarrow>cs. energy_level a) / rat_of_nat (length cs)"
  defines "c \<equiv> rat_of_int (\<Sum>a\<leftarrow>cs. crowd_level a) / rat_of_nat (length cs)"
  assumes "cs \<noteq> []"
  shows "status (aggregate_vibes xs) =
           (if 7 \<le> e \<and> 7 \<le> c then ''LIVE''
            else if 5 \<le> e \<or> 5 \<le> c then ''warming_up'' else ''dead'')
         \<and> (e = 8 \<and> c = 15 / 2 \<longrightarrow> status (aggregate_vibes xs) = ''LIVE'')
         \<and> (e = 6 \<and> c = 3 \<longrightarrow> status (aggregate_vibes xs) = ''warming_up'')
         \<and> (e = 3 \<and> c = 2 \<longrightarrow> status (aggregate_vibes xs) = ''dead'')"
proof -
  have cs: "cs = successful xs"
    by (simp add: cs_def successful_def contributes_def [abs_def])
  with assms have ne: "successful xs \<noteq> []"
    by simp
  have st: "status (aggregate_vibes xs) = status_of e c"
    using aggregate_vibes_contributing [OF ne]
    by (simp add: e_def c_def cs mean_def)
  show ?thesis
    by (simp add: st status_of_def)
qed

theorem status_classification_witness:
  "filter (\<lambda>a. success a \<and> 3 / 10 < confidence a)
     [score 8 7 [''Techno''] (9 / 10) True, score 8 8 [] (1 / 2) True,
      score 1 1 [] (3 / 10) True, score 2 2 [] 1 False] \<noteq> []
   \<and> status (aggregate_vibes
       [score 8 7 [''Techno''] (9 / 10) True, score 8 8 [] (1 / 2) True,
        score 1 1 [] (3 / 10) True, score 2 2 [] 1 False]) = ''LIVE''"
  using status_classification
    [of "[score 8 7 [''Techno''] (9 / 10) True, score 8 8 [] (1 / 2) True,
          score 1 1 [] (3 / 10) True, score 2 2 [] 1 False]"]
  by (simp add: score_def)

lemma successful_append: "successful (xs @ ys) = successful xs @ successful ys"
  by (simp add: successful_def)

lemma status_insufficient_iff:
  "(status (aggregate_vibes xs) = ''insufficient_data'') = (successful xs = [])"
  by (simp add: aggregate_vibes_def Let_def insufficient_data_def status_of_def)

lemma aggregate_vibes_insufficient_iff:
  "(aggregate_vibes xs = insufficient_data) = (successful xs = [])"
proof
  assume "aggregate_vibes xs = insufficient_data"
  then have "status (aggregate_vibes xs) = ''insufficient_data''"
    by (simp add: insufficient_data_def)
  then show "successful xs = []"
    by (simp add: status_insufficient_iff)
next
  assume "successful xs = []"
  then show "aggregate_vibes xs = insufficient_data"
    by (simp add: aggregate_vibes_def)
qed

lemma aggregate_vibes_cong: "successful xs = successful ys \<Longrightarrow> aggregate_vibes xs = aggregate_vibes ys"
  by (simp add: aggregate_vibes_def)

text \<open>
  Claim C5. The aggregator returns the summary with status \<^verbatim>\<open>insufficient_data\<close>,
  average energy 5, average crowd 5, top tags \<^verbatim>\<open>["Unknown"]\<close> and sample size 0 if and
  only if no score of the list has \<^verbatim>\<open>success\<close> true and \<^verbatim>\<open>confidence > 0.3\<close> (and
  then, and only then, the status alone is \<^verbatim>\<open>insufficient_data\<close>). So the empty list
  gives that summary, and so does a list of failed or low-confidence scores only; a score
  whose confidence is exactly 0.3 does not contribute: the summary is the same with it
  and without it.
\<close>

theorem insufficient_data_iff:
  fixes xs ys :: "(string list, 'd) VibeAnalysis list"
  shows "((aggregate_vibes xs =
            \<lparr>avg_energy = 5, avg_crowd = 5, top_vibe_tags = [''Unknown''],
             status = ''insufficient_data'', sample_size = 0\<rparr>)
          = (\<not> (\<exists>a \<in> set xs. success a \<and> 3 / 10 < confidence a)))
       \<and> ((status (aggregate_vibes xs) = ''insufficient_data'')
          = (\<not> (\<exists>a \<in> set xs. success a \<and> 3 / 10 < confidence a)))
       \<and> aggregate_vibes ([] :: (string list, 'd) VibeAnalysis list) =
            \<lparr>avg_energy = 5, avg_crowd = 5, top_vibe_tags = [''Unknown''],
             status = ''insufficient_data'', sample_size = 0\<rparr>
       \<and> ((\<forall>a \<in> set xs. \<not> success a \<or> confidence a \<le> 3 / 10) \<longrightarrow>
            aggregate_vibes xs =
              \<lparr>avg_energy = 5, avg_crowd = 5, top_vibe_tags = [''Unknown''],
               status = ''insufficient_data'', sample_size = 0\<rparr>)
       \<and> (confidence b = 3 / 10 \<longrightarrow> aggregate_vibes (xs @ b # ys) = aggregate_vibes (xs @ ys))"
proof -
  have none: "(successful xs = []) = (\<not> (\<exists>a \<in> set xs. success a \<and> 3 / 10 < confidence a))"
    by (auto simp: successful_def contributes_def filter_empty_conv)
  have low: "\<forall>a \<in> set xs. \<not> success a \<or> confidence a \<le> 3 / 10 \<Longrightarrow> successful xs = []"
    by (auto simp: successful_def contributes_def filter_empty_conv)
  have drop: "confidence b = 3 / 10 \<Longrightarrow> successful (xs @ b # ys) = successful (xs @ ys)"
    by (simp add: successful_def contributes_def)
  show ?thesis
    using none low drop [THEN aggregate_vibes_cong]
      aggregate_vibes_insufficient_iff [of xs] status_insufficient_iff [of xs]
      aggregate_vibes_insufficient_iff [of "[] :: (string list, 'd) VibeAnalysis list"]
    by (simp add: insufficient_data_def successful_def)
qed

theorem insufficient_data_iff_witness:
  "confidence (score 9 9 [''Hype''] (3 / 10) True) \<le> 3 / 10
   \<and> \<not> success (score 9 9 [''Hype''] 1 False)
   \<and> confidence (score 9 9 [''Dark''] (3 / 10) True) = 3 / 10
   \<and> aggregate_vibes [score 9 9 [''Hype''] (3 / 10) True, score 9 9 [''Hype''] 1 False] =
       \<lparr>avg_energy = 5, avg_crowd = 5, top_vibe_tags = [''Unknown''],
        status = ''insufficient_data'', sample_size = 0\<rparr>
   \<and> aggregate_vibes ([score 8 8 [''Techno''] 1 True] @ score 9 9 [''Dark''] (3 / 10) True # []) =
       aggregate_vibes ([score 8 8 [''Techno''] 1 True] @ [])"
  using insufficient_data_iff
    [of "[score 9 9 [''Hype''] (3 / 10) True, score 9 9 [''Hype''] 1 False]"
        "score 9 9 [''Dark''] (3 / 10) True" "[]"]
    insufficient_data_iff
    [of "[score 8 8 [''Techno''] 1 True]" "score 9 9 [''Dark''] (3 / 10) True" "[]"]
  by (simp add: score_def)

lemma successful_near_live: "successful near_live = near_live"
  by (simp add: successful_def near_live_def contributes_def score_def)

lemma mean_energy_near_live: "mean (map energy_level near_live) = 174 / 25"
  by (simp add: near_live_def mean_def score_def sum_list_replicate)

lemma mean_crowd_near_live: "mean (map crowd_level near_live) = 8"
  by (simp add: near_live_def mean_def score_def sum_list_replicate)

text \<open>
  The doubles nearest to 1/10, 129/20 and 127/20, and the rounding of the two means: the
  first double lies above its quotient, the second below.
\<close>

lemma to_double_examples:
  "to_double (1 / 10) = 3602879701896397 / 36028797018963968"
  "to_double (129 / 20) = 7262054399134925 / 1125899906842624"
  "to_double (127 / 20) = 3574732204225331 / 562949953421312"
  "129 / 20 < to_double (129 / 20)" "to_double (127 / 20) < 127 / 20"
  "to_double 7 = 7" "to_double (- 5 / 2) = - 5 / 2"
  by code_simp+

lemma py_round1_examples:
  "py_round1 (174 / 25) = 7" "py_round1 8 = 8" "py_round1 (209 / 30) = 7" "py_round1 9 = 9"
  "py_round1 (129 / 20) = 13 / 2" "py_round1 (127 / 20) = 63 / 10"
  by code_simp+

text \<open>
  Claim C10. The status is computed from the exact means of the contributing scores,
  and the reported \<^verbatim>\<open>avg_energy\<close> and \<^verbatim>\<open>avg_crowd\<close> are these means rounded to one
  decimal place afterwards. So a report can show \<^verbatim>\<open>avg_energy\<close> 7.0 and
  \<^verbatim>\<open>avg_crowd\<close> at least 7 with the status \<^verbatim>\<open>warming_up\<close>: the scores of
  \<^const>\<open>near_live\<close>, whose energies average 6.96, do.
\<close>

theorem status_from_unrounded_means:
  fixes xs :: "(string list, 'd) VibeAnalysis list"
  defines "cs \<equiv> filter (\<lambda>a. success a \<and> 3 / 10 < confidence a) xs"
  defines "e \<equiv> rat_of_int (\<Sum>a\<leftarrow>cs. energy_level a) / rat_of_nat (length cs)"
  defines "c \<equiv> rat_of_int (\<Sum>a\<leftarrow>cs. crowd_level a) / rat_of_nat (length cs)"
  shows "(cs \<noteq> [] \<longrightarrow>
            avg_energy (aggregate_vibes xs) = py_round1 e
          \<and> avg_crowd (aggregate_vibes xs) = py_round1 c
          \<and> status (aggregate_vibes xs) =
              (if 7 \<le> e \<and> 7 \<le> c then ''LIVE''
               else if 5 \<le> e \<or> 5 \<le> c then ''warming_up'' else ''dead''))
       \<and> avg_energy (aggregate_vibes near_live) = 7
       \<and> 7 \<le> avg_crowd (aggregate_vibes near_live)
       \<and> status (aggregate_vibes near_live) = ''warming_up''
       \<and> status (aggregate_vibes near_live) \<noteq>
           status_of (avg_energy (aggregate_vibes near_live)) (avg_crowd (aggregate_vibes near_live))"
proof -
  have cs: "cs = successful xs"
    by (simp add: cs_def successful_def contributes_def [abs_def])
  have general: "cs \<noteq> [] \<longrightarrow>
            avg_energy (aggregate_vibes xs) = py_round1 e
          \<and> avg_crowd (aggregate_vibes xs) = py_round1 c
          \<and> status (aggregate_vibes xs) =
              (if 7 \<le> e \<and> 7 \<le> c then ''LIVE''
               else if 5 \<le> e \<or> 5 \<le> c then ''warming_up'' else ''dead'')"
    by (simp add: cs aggregate_vibes_def Let_def e_def c_def mean_def status_of_def)
  have ne: "near_live \<noteq> []"
    by (simp add: near_live_def)
  have agg: "aggregate_vibes near_live =
      \<lparr>avg_energy = 7, avg_crowd = 8,
       top_vibe_tags =
         (if top_tags_of (count_tags near_live) = [] then [''Unknown'']
          else top_tags_of (count_tags near_live)),
       status = ''warming_up'', sample_size = length near_live\<rparr>"
    by (simp add: aggregate_vibes_def Let_def successful_near_live ne mean_energy_near_live
        mean_crowd_near_live py_round1_examples status_of_def)
  show ?thesis
    using general by (simp add: agg status_of_def)
qed

theorem status_from_unrounded_means_witness:
  "filter (\<lambda>a. success a \<and> 3 / 10 < confidence a) almost_live \<noteq> []
   \<and> rat_of_int (\<Sum>a\<leftarrow>filter (\<lambda>a. success a \<and> 3 / 10 < confidence a) almost_live. energy_level a)
       / rat_of_nat (length (filter (\<lambda>a. success a \<and> 3 / 10 < confidence a) almost_live)) = 209 / 30
   \<and> avg_energy (aggregate_vibes almost_live) = 7
   \<and> avg_crowd (aggregate_vibes almost_live) = 9
   \<and> status (aggregate_vibes almost_live) = ''warming_up''"
proof -
  have f: "filter (\<lambda>a. success a \<and> 3 / 10 < confidence a) almost_live = almost_live"
    by (simp add: almost_live_def score_def)
  have e: "rat_of_int (\<Sum>a\<leftarrow>almost_live. energy_level a) / rat_of_nat (length almost_live) = 209 / 30"
    and c: "rat_of_int (\<Sum>a\<leftarrow>almost_live. crowd_level a) / rat_of_nat (length almost_live) = 9"
    by (simp_all add: almost_live_def score_def sum_list_replicate)
  have ne: "almost_live \<noteq> []"
    by (simp add: almost_live_def)
  from status_from_unrounded_means [of almost_live, unfolded f e c] ne show ?thesis
    unfolding f e c by (simp add: py_round1_examples)
qed


subsection \<open>The tag tally\<close>

text \<open>\<^const>\<open>first_seen\<close> keeps the first occurrence of each element, in order.\<close>

lemma remdups_snoc: "remdups (ys @ [x]) = filter (\<lambda>y. y \<noteq> x) (remdups ys) @ [x]"
  by (induction ys) auto

lemma first_seen_Cons: "first_seen (x # xs) = x # filter (\<lambda>y. y \<noteq> x) (first_seen xs)"
  by (simp add: first_seen_def remdups_snoc rev_filter)

lemma first_seen_example: "first_seen [''a'', ''b'', ''a'', ''c'', ''b''] = [''a'', ''b'', ''c'']"
  by (simp add: first_seen_def)

lemma first_seen_snoc:
  "first_seen (ts @ [t]) = (if t \<in> set ts then first_seen ts else first_seen ts @ [t])"
  by (simp add: first_seen_def)

lemma set_first_seen: "set (first_seen ts) = set ts"
  by (simp add: first_seen_def)

lemma distinct_first_seen: "distinct (first_seen ts)"
  by (simp add: first_seen_def)

lemma length_first_seen: "length (first_seen ts) = card (set ts)"
  using distinct_card [OF distinct_first_seen, of ts] by (simp add: set_first_seen)

lemma count_tags_foldl: "count_tags scores = foldl bump_tag [] (all_tags scores)"
proof -
  have "foldl (\<lambda>d a. foldl bump_tag d (vibe_tags a)) d0 scores = foldl bump_tag d0 (all_tags scores)"
    for d0
    by (induction scores arbitrary: d0) (simp_all add: all_tags_def)
  then show ?thesis by (simp add: count_tags_def)
qed

text \<open>
  The dict built by the two loops: its keys are the tags in first-seen order and each
  key's value is the number of times the tag occurs.
\<close>

lemma foldl_bump_tag:
  "map fst (foldl bump_tag [] ts) = first_seen ts \<and>
   (\<forall>t. dict_get (foldl bump_tag [] ts) t 0 = count_list ts t)"
proof (induction ts rule: rev_induct)
  case Nil
  show ?case by (simp add: first_seen_def dict_get_def)
next
  case (snoc x ts)
  let ?d = "foldl bump_tag [] ts"
  from snoc have keys: "map fst ?d = first_seen ts"
    and cnt: "\<And>t. dict_get ?d t 0 = count_list ts t" by simp_all
  have "map fst (bump_tag ?d x) = first_seen (ts @ [x])"
    using keys by (simp add: bump_tag_def AList.update_keys first_seen_snoc set_first_seen)
  moreover have "dict_get (bump_tag ?d x) t 0 = count_list (ts @ [x]) t" for t
    using cnt [of t] cnt [of x]
    by (simp add: bump_tag_def dict_get_def AList.update_conv')
  ultimately show ?case by simp
qed

lemma top_tags_of_count_tags:
  "top_tags_of (count_tags scores) =
     take 4 (sort_key (\<lambda>t. - int (count_list (all_tags scores) t)) (first_seen (all_tags scores)))"
  using foldl_bump_tag [of "all_tags scores"]
  by (simp add: top_tags_of_def count_tags_foldl)

text \<open>The first \<open>k\<close> elements of a stable sort by the key \<open>f\<close>.\<close>

lemma take_sort_key_sorted: "sorted (map f (take k (sort_key f xs)))"
  using sorted_sort_key [of f xs] by (simp add: take_map [symmetric] sorted_wrt_take)

lemma take_sort_key_least:
  assumes "u \<in> set (take k (sort_key f xs))" and "t \<in> set xs"
    and "t \<notin> set (take k (sort_key f xs))"
  shows "f u \<le> f t"
proof -
  let ?s = "sort_key f xs"
  have "set ?s = set (take k ?s) \<union> set (drop k ?s)"
    by (metis append_take_drop_id set_append)
  with assms(2,3) have t: "t \<in> set (drop k ?s)" by simp
  have "sorted (map f (take k ?s) @ map f (drop k ?s))"
    using sorted_sort_key [of f xs] by (simp add: map_append [symmetric] del: map_append)
  with assms(1) t show ?thesis by (auto simp: sorted_append)
qed

lemma take_sort_key_ties:
  "prefix (filter (\<lambda>y. f y = c) (take k (sort_key f xs))) (filter (\<lambda>y. f y = c) xs)"
  using filter_mono_prefix [OF take_is_prefix, of "\<lambda>y. f y = c" k "sort_key f xs"]
  by (simp add: sort_key_stable)

lemma top_tags_nonempty: "all_tags scores \<noteq> [] \<Longrightarrow> top_tags_of (count_tags scores) \<noteq> []"
proof -
  assume "all_tags scores \<noteq> []"
  then have "first_seen (all_tags scores) \<noteq> []"
    using set_first_seen [of "all_tags scores"] by (metis set_empty)
  then have "length (sort_key (\<lambda>t. - int (count_list (all_tags scores) t))
      (first_seen (all_tags scores))) \<noteq> 0"
    by simp
  then show ?thesis by (simp add: top_tags_of_count_tags del: length_sort)
qed

lemma top_tags_empty: "all_tags scores = [] \<Longrightarrow> top_tags_of (count_tags scores) = []"
  by (simp add: top_tags_of_count_tags first_seen_def)

lemma top_vibe_tags_contributing:
  "successful xs \<noteq> [] \<Longrightarrow>
   top_vibe_tags (aggregate_vibes xs) =
     (if all_tags (successful xs) = [] then [''Unknown'']
      else top_tags_of (count_tags (successful xs)))"
  using top_tags_nonempty [of "successful xs"] top_tags_empty [of "successful xs"]
  by (auto simp add: aggregate_vibes_def Let_def)

text \<open>
  Claim C6. Let \<open>tags\<close> be the tags of the contributing scores, in sequence order. If
  there are none, \<^verbatim>\<open>top_vibe_tags\<close> is \<^verbatim>\<open>["Unknown"]\<close>. Otherwise it holds
  \<open>min 4 n\<close> pairwise distinct tags of \<open>tags\<close>, where \<open>n\<close> is the number of distinct
  tags; they stand in order of descending frequency; no tag left out is more frequent
  than a tag kept; and for each frequency, the tags kept with that frequency are an
  initial part of the tags with that frequency in first-seen order (a tie is broken in
  favour of the tag seen first, in the selection and in the order). The tag lists
  \<^verbatim>\<open>[["Techno","Dark"],["Techno","Hype"],["Dark"]]\<close> give exactly
  \<^verbatim>\<open>["Techno","Dark","Hype"]\<close>.
\<close>

theorem top_tags_by_frequency:
  fixes xs :: "(string list, 'd) VibeAnalysis list"
  defines "cs \<equiv> filter (\<lambda>a. success a \<and> 3 / 10 < confidence a) xs"
  defines "tags \<equiv> concat (map vibe_tags cs)"
  defines "r \<equiv> top_vibe_tags (aggregate_vibes xs)"
  assumes "cs \<noteq> []"
  shows "(tags = [] \<longrightarrow> r = [''Unknown''])
       \<and> (tags \<noteq> [] \<longrightarrow>
            length r = min 4 (card (set tags)) \<and> distinct r \<and> set r \<subseteq> set tags
          \<and> sorted_wrt (\<lambda>t u. count_list tags u \<le> count_list tags t) r
          \<and> (\<forall>u \<in> set r. \<forall>t \<in> set tags - set r. count_list tags t \<le> count_list tags u)
          \<and> (\<forall>n. prefix (filter (\<lambda>t. count_list tags t = n) r)
                         (filter (\<lambda>t. count_list tags t = n) (first_seen tags))))
       \<and> top_vibe_tags (aggregate_vibes
            [score 8 8 [''Techno'', ''Dark''] 1 True, score 8 8 [''Techno'', ''Hype''] 1 True,
             score 8 8 [''Dark''] 1 True]) = [''Techno'', ''Dark'', ''Hype'']"
proof -
  define f where "f = (\<lambda>t. - int (count_list tags t))"
  have cs: "cs = successful xs"
    by (simp add: cs_def successful_def contributes_def [abs_def])
  have tags: "tags = all_tags (successful xs)"
    by (simp add: tags_def cs all_tags_def)
  have ne: "successful xs \<noteq> []"
    using assms(4) by (simp add: cs)
  have none: "tags = [] \<longrightarrow> r = [''Unknown'']"
    using top_vibe_tags_contributing [OF ne] by (simp add: r_def tags)
  have example: "top_vibe_tags (aggregate_vibes
            [score 8 8 [''Techno'', ''Dark''] 1 True, score 8 8 [''Techno'', ''Hype''] 1 True,
             score 8 8 [''Dark''] 1 True]) = [''Techno'', ''Dark'', ''Hype'']"
    by code_simp
  have some: "length r = min 4 (card (set tags)) \<and> distinct r \<and> set r \<subseteq> set tags
          \<and> sorted_wrt (\<lambda>t u. count_list tags u \<le> count_list tags t) r
          \<and> (\<forall>u \<in> set r. \<forall>t \<in> set tags - set r. count_list tags t \<le> count_list tags u)
          \<and> (\<forall>n. prefix (filter (\<lambda>t. count_list tags t = n) r)
                         (filter (\<lambda>t. count_list tags t = n) (first_seen tags)))"
    if "tags \<noteq> []"
  proof -
    have r: "r = take 4 (sort_key f (first_seen tags))"
      using top_vibe_tags_contributing [OF ne] that
      by (simp add: r_def tags top_tags_of_count_tags f_def)
    have len: "length r = min 4 (card (set tags))"
      by (simp add: r length_first_seen)
    have dist: "distinct r"
      by (simp add: r distinct_first_seen)
    have sub: "set r \<subseteq> set tags"
      using set_take_subset [of 4 "sort_key f (first_seen tags)"]
      by (simp add: r set_first_seen)
    have "sorted (map f r)"
      unfolding r by (rule take_sort_key_sorted)
    then have srt: "sorted_wrt (\<lambda>t u. count_list tags u \<le> count_list tags t) r"
      by (simp add: sorted_map f_def)
    have best: "\<forall>u \<in> set r. \<forall>t \<in> set tags - set r. count_list tags t \<le> count_list tags u"
    proof (intro ballI)
      fix u t assume u: "u \<in> set r" and t: "t \<in> set tags - set r"
      have "f u \<le> f t"
        using take_sort_key_least [of u 4 f "first_seen tags" t] u t
        by (simp add: r set_first_seen)
      then show "count_list tags t \<le> count_list tags u"
        by (simp add: f_def)
    qed
    have ties: "prefix (filter (\<lambda>t. count_list tags t = n) r)
                       (filter (\<lambda>t. count_list tags t = n) (first_seen tags))" for n
      using take_sort_key_ties [of f "- int n" 4 "first_seen tags"]
      by (simp add: r f_def)
    show ?thesis
      using len dist sub srt best ties by blast
  qed
  show ?thesis
    using none some example by blast
qed

theorem top_tags_by_frequency_witness:
  "filter (\<lambda>a. success a \<and> 3 / 10 < confidence a)
     [score 8 8 [''Chill'', ''Dark''] 1 True, score 9 9 [''Loud''] 1 False,
      score 8 8 [''Dark'', ''Hype''] 1 True] \<noteq> []
   \<and> concat (map vibe_tags (filter (\<lambda>a. success a \<and> 3 / 10 < confidence a)
       [score 8 8 [''Chill'', ''Dark''] 1 True, score 9 9 [''Loud''] 1 False,
        score 8 8 [''Dark'', ''Hype''] 1 True])) \<noteq> []
   \<and> length (top_vibe_tags (aggregate_vibes
       [score 8 8 [''Chill'', ''Dark''] 1 True, score 9 9 [''Loud''] 1 False,
        score 8 8 [''Dark'', ''Hype''] 1 True])) = 3
   \<and> distinct (top_vibe_tags (aggregate_vibes
       [score 8 8 [''Chill'', ''Dark''] 1 True, score 9 9 [''Loud''] 1 False,
        score 8 8 [''Dark'', ''Hype''] 1 True]))"
  using top_tags_by_frequency
    [of "[score 8 8 [''Chill'', ''Dark''] 1 True, score 9 9 [''Loud''] 1 False,
          score 8 8 [''Dark'', ''Hype''] 1 True]"]
  by (simp add: score_def)

section \<open>Properties of the scorer\<close>

lemma and_then_Inr:
  "(and_then r f = Inr v) = (\<exists>x. r = Inr x \<and> f x = Inr v)"
  by (cases r) (simp_all add: and_then_def)

lemma and_then_Inl:
  "(and_then r f = Inl e) = (r = Inl e \<or> (\<exists>x. r = Inr x \<and> f x = Inl e))"
  by (cases r) (simp_all add: and_then_def)

lemma clamp_level_range: "1 \<le> clamp_level n \<and> clamp_level n \<le> 10"
  by (simp add: clamp_level_def)

lemma clamp_confidence_range: "0 \<le> clamp_confidence x \<and> clamp_confidence x \<le> 1"
  by (cases x) (simp_all add: clamp_confidence_def Let_def)

lemma py_slice4_len: "py_slice4 v = Inr t \<Longrightarrow> \<exists>n. py_len t = Some n \<and> n \<le> 4"
  by (cases v) (auto simp: py_slice4_def py_len_def)

lemma in_range_degraded: "in_range (degraded u d m)"
  by (simp add: in_range_def degraded_def py_len_def)

lemma build_analysis_in_range: "build_analysis L data u = Inr r \<Longrightarrow> in_range r"
  by (auto simp: build_analysis_def and_then_Inr in_range_def clamp_level_range
      clamp_confidence_range dest: py_slice4_len)

lemma parse_response_in_range: "parse_response L text u = Inr r \<Longrightarrow> in_range r"
  by (auto simp: parse_response_def and_then_Inr in_range_degraded
      split: sum.splits if_splits dest: build_analysis_in_range)

lemma analyze_body_in_range: "analyze_body E u = Inr r \<Longrightarrow> in_range r"
  by (auto simp: analyze_body_def and_then_Inr dest: parse_response_in_range)

lemma analyze_image_total: "\<exists>r. analyze_image E u = Inr r"
  by (simp add: analyze_image_def split: sum.splits)

lemma analyze_image_in_range: "analyze_image E u = Inr r \<Longrightarrow> in_range r"
  by (auto simp: analyze_image_def in_range_degraded split: sum.splits if_splits
      dest: analyze_body_in_range)

lemma fetch_png: "fetch_image_as_base64 (example_env (Inr png_response) reply loads) u = Inr (''aW1n'', ''image/png'')"
  by (simp add: fetch_image_as_base64_def example_env_def png_response_def and_then_def
      startswith_def)

lemma analyze_body_example:
  "analyze_body (example_env (Inr png_response) (Inr text) loads) u =
     parse_response (example_env (Inr png_response) (Inr text) loads) text u"
  by (simp add: analyze_body_def fetch_png and_then_def) (simp add: example_env_def)

lemma clean_text_examples:
  "clean_text (fenced wild_text) = wild_text"
  "clean_text ''{}'' = ''{}''"
  "clean_text ''not json'' = ''not json''"
  "clean_text null_energy_text = null_energy_text"
  by code_simp+

lemma analyze_image_wild:
  "analyze_image (example_env (Inr png_response) (Inr (fenced wild_text))
       (decoder_at wild_text wild_reply)) thumb =
     Inr \<lparr>image_url = thumb, energy_level = 10, crowd_level = 1,
          vibe_tags = JArray [JString ''A'', JString ''B'', JString ''C'', JString ''D''],
          description = JString ''packed'', confidence = 1, success = True, error = None\<rparr>"
  apply (simp add: analyze_image_def analyze_body_example parse_response_def)
  apply (simp add: example_env_def clean_text_examples decoder_at_def and_then_def)
  apply (simp add: build_analysis_def wild_reply_def and_then_def py_get_def dict_get_def
      py_int_def py_slice4_def py_float_def clamp_level_def clamp_confidence_def)
  done

lemma clamp_confidence_cases:
  "clamp_confidence f = (case f of Finite q \<Rightarrow> max 0 (min 1 q) | PosInf \<Rightarrow> 1 | NegInf \<Rightarrow> 0 | NaN \<Rightarrow> 1)"
  by (cases f) (simp_all add: clamp_confidence_def Let_def max_def min_def)

lemma build_analysis_converted:
  assumes "py_int L (dict_get kvs ''energy_level'' (JInt 5)) = Inr e"
    and "py_int L (dict_get kvs ''crowd_level'' (JInt 5)) = Inr c"
    and "py_slice4 (dict_get kvs ''vibe_tags'' (JArray [])) = Inr t"
    and "py_float L (dict_get kvs ''confidence'' (JFloat (Finite (1 / 2)))) = Inr f"
  shows "build_analysis L (JObject kvs) u =
           Inr \<lparr>image_url = u, energy_level = max 1 (min 10 e), crowd_level = max 1 (min 10 c),
                vibe_tags = t,
                description = dict_get kvs ''description'' (JString ''Unable to analyze''),
                confidence = (case f of Finite q \<Rightarrow> max 0 (min 1 q) | PosInf \<Rightarrow> 1
                              | NegInf \<Rightarrow> 0 | NaN \<Rightarrow> 1),
                success = True, error = None\<rparr>"
  using assms
  by (simp add: build_analysis_def py_get_def and_then_def clamp_level_def
      clamp_confidence_cases)

lemma parse_response_converted:
  assumes "json_loads L (clean_text reply) = Inr (JObject kvs)"
    and "py_int L (dict_get kvs ''energy_level'' (JInt 5)) = Inr e"
    and "py_int L (dict_get kvs ''crowd_level'' (JInt 5)) = Inr c"
    and "py_slice4 (dict_get kvs ''vibe_tags'' (JArray [])) = Inr t"
    and "py_float L (dict_get kvs ''confidence'' (JFloat (Finite (1 / 2)))) = Inr f"
  shows "parse_response L reply u =
           Inr \<lparr>image_url = u, energy_level = max 1 (min 10 e), crowd_level = max 1 (min 10 c),
                vibe_tags = t,
                description = dict_get kvs ''description'' (JString ''Unable to analyze''),
                confidence = (case f of Finite q \<Rightarrow> max 0 (min 1 q) | PosInf \<Rightarrow> 1
                              | NegInf \<Rightarrow> 0 | NaN \<Rightarrow> 1),
                success = True, error = None\<rparr>"
  using build_analysis_converted [OF assms(2-5), of u] assms(1)
  by (simp add: parse_response_def and_then_def)

lemma analyze_image_of_parsed:
  assumes "fetch_image_as_base64 E u = Inr (d, mt)" and "classify E mt d = Inr reply"
    and "parse_response E reply u = Inr r"
  shows "analyze_image E u = Inr r"
  using assms by (simp add: analyze_image_def analyze_body_def and_then_def)

text \<open>
  Claim C2. For every image URL and whatever the image fetch, the classifier and the
  decoder do, the scorer returns a record with \<open>1 \<le> energy_level \<le> 10\<close>,
  \<open>1 \<le> crowd_level \<le> 10\<close>, \<open>0 \<le> confidence \<le> 1\<close> and \<open>len(vibe_tags) \<le> 4\<close>; the
  same holds for every record that \<^verbatim>\<open>_parse_response\<close> returns, for every reply text.
  On the success path the values are those of the reply, clamped and truncated: when the
  reply decodes to an object whose levels convert to the integers \<open>e\<close> and \<open>c\<close>, whose
  tags are a list and whose confidence converts to the float \<open>f\<close>, the record has
  energy \<open>max 1 (min 10 e)\<close>, crowd \<open>max 1 (min 10 c)\<close>, the first four tags of the
  reply, and the confidence \<open>max 0 (min 1 f)\<close> (1 for NaN and for infinity, 0 for minus
  infinity). So a level between 1 and 10, a confidence between 0 and 1 and a list of at
  most four tags are passed on unchanged. It is the record that the scorer returns when
  the fetch and the classifier call succeeded. Tags given as a string are cut to their
  first four characters.
\<close>

theorem score_in_range:
  fixes E :: env
  shows
  "(\<exists>r. analyze_image E u = Inr r
        \<and> 1 \<le> energy_level r \<and> energy_level r \<le> 10
        \<and> 1 \<le> crowd_level r \<and> crowd_level r \<le> 10
        \<and> 0 \<le> confidence r \<and> confidence r \<le> 1
        \<and> (\<exists>n. py_len (vibe_tags r) = Some n \<and> n \<le> 4))
   \<and> (\<forall>r. parse_response E reply u = Inr r \<longrightarrow>
          1 \<le> energy_level r \<and> energy_level r \<le> 10
        \<and> 1 \<le> crowd_level r \<and> crowd_level r \<le> 10
        \<and> 0 \<le> confidence r \<and> confidence r \<le> 1
        \<and> (\<exists>n. py_len (vibe_tags r) = Some n \<and> n \<le> 4))
   \<and> (json_loads E (clean_text reply) = Inr (JObject kvs)
        \<and> py_int E (dict_get kvs ''energy_level'' (JInt 5)) = Inr e
        \<and> py_int E (dict_get kvs ''crowd_level'' (JInt 5)) = Inr c
        \<and> dict_get kvs ''vibe_tags'' (JArray []) = JArray ts
        \<and> py_float E (dict_get kvs ''confidence'' (JFloat (Finite (1 / 2)))) = Inr f
       \<longrightarrow>
        (\<exists>r. parse_response E reply u = Inr r
           \<and> r = \<lparr>image_url = u, energy_level = max 1 (min 10 e),
                   crowd_level = max 1 (min 10 c), vibe_tags = JArray (take 4 ts),
                   description = dict_get kvs ''description'' (JString ''Unable to analyze''),
                   confidence = (case f of Finite q \<Rightarrow> max 0 (min 1 q) | PosInf \<Rightarrow> 1
                                 | NegInf \<Rightarrow> 0 | NaN \<Rightarrow> 1),
                   success = True, error = None\<rparr>
           \<and> (1 \<le> e \<and> e \<le> 10 \<longrightarrow> energy_level r = e)
           \<and> (1 \<le> c \<and> c \<le> 10 \<longrightarrow> crowd_level r = c)
           \<and> (\<forall>q. f = Finite q \<and> 0 \<le> q \<and> q \<le> 1 \<longrightarrow> confidence r = q)
           \<and> (length ts \<le> 4 \<longrightarrow> vibe_tags r = JArray ts)
           \<and> (fetch_image_as_base64 E u = Inr (d, mt) \<and> classify E mt d = Inr reply \<longrightarrow>
                analyze_image E u = Inr r)))
   \<and> (json_loads E (clean_text reply) = Inr (JObject kvs)
        \<and> py_int E (dict_get kvs ''energy_level'' (JInt 5)) = Inr e
        \<and> py_int E (dict_get kvs ''crowd_level'' (JInt 5)) = Inr c
        \<and> dict_get kvs ''vibe_tags'' (JArray []) = JString s
        \<and> py_float E (dict_get kvs ''confidence'' (JFloat (Finite (1 / 2)))) = Inr f
       \<longrightarrow>
        (\<exists>r. parse_response E reply u = Inr r \<and> success r \<and> vibe_tags r = JString (take 4 s)
           \<and> energy_level r = max 1 (min 10 e) \<and> crowd_level r = max 1 (min 10 c)))"
proof -
  obtain r where r: "analyze_image E u = Inr r"
    using analyze_image_total by blast
  from analyze_image_in_range [OF r] r have first: "\<exists>r. analyze_image E u = Inr r
        \<and> 1 \<le> energy_level r \<and> energy_level r \<le> 10
        \<and> 1 \<le> crowd_level r \<and> crowd_level r \<le> 10
        \<and> 0 \<le> confidence r \<and> confidence r \<le> 1
        \<and> (\<exists>n. py_len (vibe_tags r) = Some n \<and> n \<le> 4)"
    unfolding in_range_def by blast
  have second: "\<forall>r. parse_response E reply u = Inr r \<longrightarrow>
          1 \<le> energy_level r \<and> energy_level r \<le> 10
        \<and> 1 \<le> crowd_level r \<and> crowd_level r \<le> 10
        \<and> 0 \<le> confidence r \<and> confidence r \<le> 1
        \<and> (\<exists>n. py_len (vibe_tags r) = Some n \<and> n \<le> 4)"
    using parse_response_in_range [of E reply u] unfolding in_range_def by blast
  have third: "\<exists>r. parse_response E reply u = Inr r
           \<and> r = \<lparr>image_url = u, energy_level = max 1 (min 10 e),
                   crowd_level = max 1 (min 10 c), vibe_tags = JArray (take 4 ts),
                   description = dict_get kvs ''description'' (JString ''Unable to analyze''),
                   confidence = (case f of Finite q \<Rightarrow> max 0 (min 1 q) | PosInf \<Rightarrow> 1
                                 | NegInf \<Rightarrow> 0 | NaN \<Rightarrow> 1),
                   success = True, error = None\<rparr>
           \<and> (1 \<le> e \<and> e \<le> 10 \<longrightarrow> energy_level r = e)
           \<and> (1 \<le> c \<and> c \<le> 10 \<longrightarrow> crowd_level r = c)
           \<and> (\<forall>q. f = Finite q \<and> 0 \<le> q \<and> q \<le> 1 \<longrightarrow> confidence r = q)
           \<and> (length ts \<le> 4 \<longrightarrow> vibe_tags r = JArray ts)
           \<and> (fetch_image_as_base64 E u = Inr (d, mt) \<and> classify E mt d = Inr reply \<longrightarrow>
                analyze_image E u = Inr r)"
    if h: "json_loads E (clean_text reply) = Inr (JObject kvs)"
      "py_int E (dict_get kvs ''energy_level'' (JInt 5)) = Inr e"
      "py_int E (dict_get kvs ''crowd_level'' (JInt 5)) = Inr c"
      "dict_get kvs ''vibe_tags'' (JArray []) = JArray ts"
      "py_float E (dict_get kvs ''confidence'' (JFloat (Finite (1 / 2)))) = Inr f"
  proof -
    have sl: "py_slice4 (dict_get kvs ''vibe_tags'' (JArray [])) = Inr (JArray (take 4 ts))"
      by (simp add: h(4) py_slice4_def)
    note p = parse_response_converted [OF h(1,2,3) sl h(5), of u]
    show ?thesis
      using p analyze_image_of_parsed [of E u d mt reply, OF _ _ p]
      by (auto simp: max_def min_def)
  qed
  have fourth: "\<exists>r. parse_response E reply u = Inr r \<and> success r \<and> vibe_tags r = JString (take 4 s)
           \<and> energy_level r = max 1 (min 10 e) \<and> crowd_level r = max 1 (min 10 c)"
    if h: "json_loads E (clean_text reply) = Inr (JObject kvs)"
      "py_int E (dict_get kvs ''energy_level'' (JInt 5)) = Inr e"
      "py_int E (dict_get kvs ''crowd_level'' (JInt 5)) = Inr c"
      "dict_get kvs ''vibe_tags'' (JArray []) = JString s"
      "py_float E (dict_get kvs ''confidence'' (JFloat (Finite (1 / 2)))) = Inr f"
  proof -
    have sl: "py_slice4 (dict_get kvs ''vibe_tags'' (JArray [])) = Inr (JString (take 4 s))"
      by (simp add: h(4) py_slice4_def)
    from parse_response_converted [OF h(1,2,3) sl h(5), of u] show ?thesis
      by simp
  qed
  from first second third fourth show ?thesis by blast
qed

theorem score_in_range_witness:
  "json_loads (example_env (Inr png_response) (Inr (fenced wild_text))
       (decoder_at wild_text wild_reply)) (clean_text (fenced wild_text)) = Inr wild_reply
   \<and> py_int (example_env (Inr png_response) (Inr (fenced wild_text))
       (decoder_at wild_text wild_reply)) (JInt 99) = Inr 99
   \<and> py_int (example_env (Inr png_response) (Inr (fenced wild_text))
       (decoder_at wild_text wild_reply)) (JFloat (Finite (- 7 / 2))) = Inr (- 3)
   \<and> py_float (example_env (Inr png_response) (Inr (fenced wild_text))
       (decoder_at wild_text wild_reply)) (JFloat NaN) = Inr NaN
   \<and> analyze_image (example_env (Inr png_response) (Inr (fenced wild_text))
       (decoder_at wild_text wild_reply)) thumb =
       Inr \<lparr>image_url = thumb, energy_level = 10, crowd_level = 1,
            vibe_tags = JArray [JString ''A'', JString ''B'', JString ''C'', JString ''D''],
            description = JString ''packed'', confidence = 1, success = True, error = None\<rparr>"
proof -
  let ?E = "example_env (Inr png_response) (Inr (fenced wild_text)) (decoder_at wild_text wild_reply)"
  let ?kvs = "[(''energy_level'', JInt 99), (''crowd_level'', JFloat (Finite (- 7 / 2))),
              (''vibe_tags'', JArray [JString ''A'', JString ''B'', JString ''C'', JString ''D'',
                                    JString ''E'', JString ''F'']),
              (''description'', JString ''packed''), (''confidence'', JFloat NaN)]"
  have loads: "json_loads ?E (clean_text (fenced wild_text)) = Inr (JObject ?kvs)"
    by (simp add: clean_text_examples) (simp add: example_env_def decoder_at_def wild_reply_def)
  have conv: "py_int ?E (JInt 99) = Inr 99" "py_int ?E (JFloat (Finite (- 7 / 2))) = Inr (- 3)"
    "py_float ?E (JFloat NaN) = Inr NaN"
    by (simp_all add: py_int_def py_float_def ceiling_eq_iff)
  have fields: "dict_get ?kvs ''energy_level'' (JInt 5) = JInt 99"
    "dict_get ?kvs ''crowd_level'' (JInt 5) = JFloat (Finite (- 7 / 2))"
    "dict_get ?kvs ''vibe_tags'' (JArray []) =
       JArray [JString ''A'', JString ''B'', JString ''C'', JString ''D'', JString ''E'', JString ''F'']"
    "dict_get ?kvs ''confidence'' (JFloat (Finite (1 / 2))) = JFloat NaN"
    "dict_get ?kvs ''description'' (JString ''Unable to analyze'') = JString ''packed''"
    by (simp_all add: dict_get_def)
  have reply: "classify ?E ''image/png'' ''aW1n'' = Inr (fenced wild_text)"
    by (simp add: example_env_def)
  from score_in_range [of ?E thumb "fenced wild_text" ?kvs 99 "- 3"
      "[JString ''A'', JString ''B'', JString ''C'', JString ''D'', JString ''E'', JString ''F'']"
      NaN "''aW1n''" "''image/png''" "[]"]
    loads conv fields reply
    fetch_png [of "Inr (fenced wild_text)" "decoder_at wild_text wild_reply" thumb]
  have "analyze_image ?E thumb =
       Inr \<lparr>image_url = thumb, energy_level = 10, crowd_level = 1,
            vibe_tags = JArray [JString ''A'', JString ''B'', JString ''C'', JString ''D''],
            description = JString ''packed'', confidence = 1, success = True, error = None\<rparr>"
    by simp
  with loads conv show ?thesis
    by (simp add: wild_reply_def)
qed

subsection \<open>Parse failures\<close>

lemma returnsD: "returns r \<Longrightarrow> \<exists>x. r = Inr x"
  by (cases r) (simp_all add: returns_def)

lemma py_int_rejected: "number_rejected v \<Longrightarrow> \<exists>m. py_int L v = Inl (Exn TypeError m)"
  by (cases v) (simp_all add: number_rejected_def py_int_def)

lemma py_float_rejected: "number_rejected v \<Longrightarrow> \<exists>m. py_float L v = Inl (Exn TypeError m)"
  by (cases v) (simp_all add: number_rejected_def py_float_def)

lemma py_slice4_rejected: "slice_rejected v \<Longrightarrow> \<exists>m. py_slice4 v = Inl (Exn TypeError m)"
  by (cases v) (simp_all add: slice_rejected_def py_slice4_def)

lemma build_analysis_type_failure:
  assumes "type_failure L kvs"
  shows "\<exists>m. build_analysis L (JObject kvs) u = Inl (Exn TypeError m)"
proof -
  let ?e = "dict_get kvs ''energy_level'' (JInt 5)"
  let ?c = "dict_get kvs ''crowd_level'' (JInt 5)"
  let ?t = "dict_get kvs ''vibe_tags'' (JArray [])"
  let ?f = "dict_get kvs ''confidence'' (JFloat (Finite (1 / 2)))"
  from assms consider
      (energy) "number_rejected ?e"
    | (crowd) "returns (py_int L ?e)" "number_rejected ?c"
    | (tags) "returns (py_int L ?e)" "returns (py_int L ?c)" "slice_rejected ?t"
    | (conf) "returns (py_int L ?e)" "returns (py_int L ?c)" "returns (py_slice4 ?t)"
        "number_rejected ?f"
    unfolding type_failure_def Let_def by blast
  then show ?thesis
  proof cases
    case energy
    from py_int_rejected [OF this, of L] show ?thesis
      by (auto simp: build_analysis_def py_get_def and_then_def)
  next
    case crowd
    from returnsD [OF crowd(1)] py_int_rejected [OF crowd(2), of L] show ?thesis
      by (auto simp: build_analysis_def py_get_def and_then_def)
  next
    case tags
    from returnsD [OF tags(1)] returnsD [OF tags(2)] py_slice4_rejected [OF tags(3)]
    show ?thesis
      by (auto simp: build_analysis_def py_get_def and_then_def)
  next
    case conf
    from returnsD [OF conf(1)] returnsD [OF conf(2)] returnsD [OF conf(3)]
      py_float_rejected [OF conf(4), of L]
    show ?thesis
      by (auto simp: build_analysis_def py_get_def and_then_def)
  qed
qed

lemma parse_response_caught:
  assumes "and_then (json_loads L (clean_text reply)) (\<lambda>data. build_analysis L data u) = Inl e"
    and "caught_by_parse e"
  shows "parse_response L reply u =
           Inr (degraded u ''Failed to parse analysis'' (''Parse error: '' @ exn_str e))"
  using assms by (simp add: parse_response_def)

lemma dict_get_defaults:
  "map_of field_defaults k = Some d \<Longrightarrow> dict_get (kvs @ field_defaults) k d = dict_get kvs k d"
  by (simp add: dict_get_def map_add_def split: option.splits)

lemma build_analysis_defaults:
  "build_analysis L (JObject (kvs @ field_defaults)) u = build_analysis L (JObject kvs) u"
proof -
  have "dict_get (kvs @ field_defaults) ''energy_level'' (JInt 5) = dict_get kvs ''energy_level'' (JInt 5)"
    "dict_get (kvs @ field_defaults) ''crowd_level'' (JInt 5) = dict_get kvs ''crowd_level'' (JInt 5)"
    "dict_get (kvs @ field_defaults) ''vibe_tags'' (JArray []) = dict_get kvs ''vibe_tags'' (JArray [])"
    "dict_get (kvs @ field_defaults) ''description'' (JString ''Unable to analyze'')
       = dict_get kvs ''description'' (JString ''Unable to analyze'')"
    "dict_get (kvs @ field_defaults) ''confidence'' (JFloat (Finite (1 / 2)))
       = dict_get kvs ''confidence'' (JFloat (Finite (1 / 2)))"
    by (rule dict_get_defaults, simp add: field_defaults_def)+
  then show ?thesis
    by (simp add: build_analysis_def py_get_def)
qed

lemma parse_empty_object:
  "parse_response (example_env got r (decoder_at ''{}'' (JObject []))) ''{}'' u =
     Inr \<lparr>image_url = u, energy_level = 5, crowd_level = 5, vibe_tags = JArray [],
          description = JString ''Unable to analyze'', confidence = 1 / 2, success = True,
          error = None\<rparr>"
  apply (simp add: parse_response_def clean_text_examples)
  apply (simp add: example_env_def decoder_at_def and_then_def)
  apply (simp add: build_analysis_def and_then_def py_get_def dict_get_def py_int_def
      py_slice4_def py_float_def clamp_level_def clamp_confidence_def)
  done

text \<open>
  Claim C8, as stated, fails: a reply with missing fields is not treated as a parse
  failure. The classifier replies \<^verbatim>\<open>{}\<close>, which decodes to the empty dict; every
  field takes its default and the record has \<^verbatim>\<open>success\<close> true, confidence 0.5, no tags,
  the description \<^verbatim>\<open>Unable to analyze\<close> and no error.
\<close>

theorem missing_fields_counterexample:
  "parse_response (example_env (Inr png_response) (Inr ''{}'') (decoder_at ''{}'' (JObject [])))
       ''{}'' thumb =
     Inr \<lparr>image_url = thumb, energy_level = 5, crowd_level = 5, vibe_tags = JArray [],
          description = JString ''Unable to analyze'', confidence = 1 / 2, success = True,
          error = None\<rparr>
   \<and> analyze_image (example_env (Inr png_response) (Inr ''{}'') (decoder_at ''{}'' (JObject [])))
       thumb =
     Inr \<lparr>image_url = thumb, energy_level = 5, crowd_level = 5, vibe_tags = JArray [],
          description = JString ''Unable to analyze'', confidence = 1 / 2, success = True,
          error = None\<rparr>"
  by (simp add: analyze_image_def analyze_body_example parse_empty_object)

text \<open>
  Claim C8, amended. A reply is a parse failure when the decoder rejects its cleaned
  text (\<^verbatim>\<open>JSONDecodeError\<close>), or when it decodes to an object and the first field
  conversion that raises meets a value of a type it rejects (\<^verbatim>\<open>null\<close>, an array or
  an object for the two levels and the confidence; anything but an array or a string
  for the tags). Then \<^verbatim>\<open>_parse_response\<close> returns the degraded record: energy 5,
  crowd 5, tags \<^verbatim>\<open>["Unknown"]\<close>, description \<^verbatim>\<open>Failed to parse analysis\<close>, confidence
  0, \<^verbatim>\<open>success\<close> false and an error text that starts with \<^verbatim>\<open>Parse error: \<close>; and
  the scorer returns that record when the fetch and the classifier call succeeded. A
  missing field is not a parse failure: the object behaves as if the field were present
  with its default (5, 5, no tags, \<^verbatim>\<open>Unable to analyze\<close>, 0.5).
\<close>

theorem parse_failure_degraded:
  fixes E :: env
  assumes "(\<exists>e. json_loads E (clean_text reply) = Inl e \<and> exn_class e = JSONDecodeError)
         \<or> (\<exists>kvs. json_loads E (clean_text reply) = Inr (JObject kvs) \<and> type_failure E kvs)"
  shows "(\<exists>m. parse_response E reply u =
             Inr \<lparr>image_url = u, energy_level = 5, crowd_level = 5,
                  vibe_tags = JArray [JString ''Unknown''],
                  description = JString ''Failed to parse analysis'',
                  confidence = 0, success = False, error = Some (''Parse error: '' @ m)\<rparr>)
       \<and> (fetch_image_as_base64 E u = Inr (d, mt) \<and> classify E mt d = Inr reply \<longrightarrow>
            analyze_image E u = parse_response E reply u)
       \<and> build_analysis E (JObject (items @ field_defaults)) u =
           build_analysis E (JObject items) u"
proof -
  have "\<exists>e. and_then (json_loads E (clean_text reply)) (\<lambda>data. build_analysis E data u) = Inl e
            \<and> caught_by_parse e"
    using assms
  proof (elim disjE exE conjE)
    fix e assume "json_loads E (clean_text reply) = Inl e" "exn_class e = JSONDecodeError"
    then show ?thesis
      by (simp add: and_then_def caught_by_parse_def)
  next
    fix kvs assume "json_loads E (clean_text reply) = Inr (JObject kvs)" "type_failure E kvs"
    with build_analysis_type_failure [of E kvs u] show ?thesis
      by (auto simp: and_then_def caught_by_parse_def)
  qed
  then obtain e where
    "and_then (json_loads E (clean_text reply)) (\<lambda>data. build_analysis E data u) = Inl e"
    "caught_by_parse e"
    by blast
  from parse_response_caught [OF this]
  have p: "parse_response E reply u =
      Inr (degraded u ''Failed to parse analysis'' (''Parse error: '' @ exn_str e))" .
  then have first: "\<exists>m. parse_response E reply u =
             Inr \<lparr>image_url = u, energy_level = 5, crowd_level = 5,
                  vibe_tags = JArray [JString ''Unknown''],
                  description = JString ''Failed to parse analysis'',
                  confidence = 0, success = False, error = Some (''Parse error: '' @ m)\<rparr>"
    by (simp add: degraded_def)
  have second: "fetch_image_as_base64 E u = Inr (d, mt) \<and> classify E mt d = Inr reply \<longrightarrow>
            analyze_image E u = parse_response E reply u"
    using analyze_image_of_parsed [of E u d mt reply] p by simp
  from first second build_analysis_defaults [of E items u] show ?thesis
    by blast
qed

lemma type_failure_null_energy:
  "type_failure L [(''energy_level'', JNull), (''crowd_level'', JInt 6)]"
  by (simp add: type_failure_def dict_get_def number_rejected_def)

theorem parse_failure_degraded_witness:
  "json_loads (example_env (Inr png_response) (Inr null_energy_text)
       (decoder_at null_energy_text null_energy_reply)) (clean_text null_energy_text)
     = Inr (JObject [(''energy_level'', JNull), (''crowd_level'', JInt 6)])
   \<and> type_failure (example_env (Inr png_response) (Inr null_energy_text)
       (decoder_at null_energy_text null_energy_reply))
       [(''energy_level'', JNull), (''crowd_level'', JInt 6)]
   \<and> fetch_image_as_base64 (example_env (Inr png_response) (Inr null_energy_text)
       (decoder_at null_energy_text null_energy_reply)) thumb = Inr (''aW1n'', ''image/png'')
   \<and> (\<exists>m. analyze_image (example_env (Inr png_response) (Inr null_energy_text)
       (decoder_at null_energy_text null_energy_reply)) thumb =
         Inr \<lparr>image_url = thumb, energy_level = 5, crowd_level = 5,
              vibe_tags = JArray [JString ''Unknown''],
              description = JString ''Failed to parse analysis'',
              confidence = 0, success = False, error = Some (''Parse error: '' @ m)\<rparr>)"
proof -
  let ?E = "example_env (Inr png_response) (Inr null_energy_text)
       (decoder_at null_energy_text null_energy_reply)"
  have loads: "json_loads ?E (clean_text null_energy_text)
     = Inr (JObject [(''energy_level'', JNull), (''crowd_level'', JInt 6)])"
    by (simp add: clean_text_examples) (simp add: example_env_def decoder_at_def null_energy_reply_def)
  have cl: "classify ?E ''image/png'' ''aW1n'' = Inr null_energy_text"
    by (simp add: example_env_def)
  from parse_failure_degraded [of ?E null_energy_text thumb "''aW1n''" "''image/png''" "[]"]
    loads type_failure_null_energy [of ?E] fetch_png [of "Inr null_energy_text"
      "decoder_at null_energy_text null_energy_reply" thumb] cl
  show ?thesis
    by simp
qed

subsection \<open>The scorer never raises\<close>

lemma build_analysis_success: "build_analysis L data u = Inr r \<Longrightarrow> success r"
  by (auto simp: build_analysis_def and_then_Inr)

lemma parse_response_failed:
  assumes "parse_response L reply u = Inr r" and "\<not> success r"
  shows "\<exists>m. r = degraded u ''Failed to parse analysis'' (''Parse error: '' @ m)"
proof (cases "and_then (json_loads L (clean_text reply)) (\<lambda>data. build_analysis L data u)")
  case (Inl e)
  with assms(1) show ?thesis
    by (auto simp: parse_response_def split: if_splits)
next
  case (Inr v)
  then have "success v"
    by (auto simp: and_then_Inr dest: build_analysis_success)
  with Inr assms show ?thesis
    by (simp add: parse_response_def)
qed

lemma analyze_body_steps:
  "(\<forall>e. fetch_image_as_base64 E u = Inl e \<longrightarrow> analyze_body E u = Inl e)
   \<and> (\<forall>e d mt. fetch_image_as_base64 E u = Inr (d, mt) \<and> classify E mt d = Inl e \<longrightarrow>
         analyze_body E u = Inl e)
   \<and> (\<forall>d mt reply. fetch_image_as_base64 E u = Inr (d, mt) \<and> classify E mt d = Inr reply \<longrightarrow>
         analyze_body E u = parse_response E reply u)"
  by (simp add: analyze_body_def and_then_def)

lemma analyze_body_failed:
  assumes "analyze_body E u = Inr r" and "\<not> success r"
  shows "\<exists>m. r = degraded u ''Failed to parse analysis'' (''Parse error: '' @ m)"
proof -
  from assms(1) obtain reply where "parse_response E reply u = Inr r"
    by (auto simp: analyze_body_def and_then_Inr)
  from parse_response_failed [OF this assms(2)] show ?thesis .
qed

text \<open>
  Claim C3, as stated, fails in one point: the error description can be empty. On the
  last \<^verbatim>\<open>except\<close> branch it is \<^verbatim>\<open>str(e)\<close>, which is the empty string for an
  exception raised without a message (such as a bare \<^verbatim>\<open>AssertionError()\<close> or
  \<^verbatim>\<open>TimeoutError()\<close>). Here the classifier call raises such an exception.
\<close>

theorem empty_error_counterexample:
  "analyze_image (example_env (Inr png_response) (Inl (Exn OtherError []))
       (decoder_at ''{}'' (JObject []))) thumb =
     Inr \<lparr>image_url = thumb, energy_level = 5, crowd_level = 5,
          vibe_tags = JArray [JString ''Unknown''], description = JString ''Analysis failed'',
          confidence = 0, success = False, error = Some []\<rparr>"
  by (simp add: analyze_image_def analyze_body_def fetch_png and_then_def)
    (simp add: example_env_def degraded_def)

text \<open>
  Claim C3, amended. For every image URL and whatever the fetch, the classifier and the
  decoder do, \<^verbatim>\<open>analyze_image\<close> returns a record and raises nothing. A failure of the
  fetch, of the classifier call, or one that the parser lets through, ends the
  \<^verbatim>\<open>try\<close> block with an exception \<open>e\<close>, and the record is then the degraded one:
  energy 5, crowd 5, tags \<^verbatim>\<open>["Unknown"]\<close>, confidence 0, \<^verbatim>\<open>success\<close> false, and the
  error description \<^verbatim>\<open>HTTP error: \<close> followed by \<^verbatim>\<open>str(e)\<close> for an HTTP error and
  \<^verbatim>\<open>str(e)\<close> itself otherwise. Every record with \<^verbatim>\<open>success\<close> false has these
  degraded values and an error description, which is empty only when it is the empty
  \<^verbatim>\<open>str(e)\<close> of an exception that is not an HTTP error.
\<close>

theorem analyze_image_never_raises:
  "\<exists>r. analyze_image E u = Inr r
     \<and> (\<forall>e. analyze_body E u = Inl e \<longrightarrow>
           r = \<lparr>image_url = u, energy_level = 5, crowd_level = 5,
                vibe_tags = JArray [JString ''Unknown''],
                description = JString (if exn_class e = HTTPError then ''Failed to fetch image''
                                       else ''Analysis failed''),
                confidence = 0, success = False,
                error = Some (if exn_class e = HTTPError then ''HTTP error: '' @ exn_str e
                              else exn_str e)\<rparr>)
     \<and> (\<not> success r \<longrightarrow>
           energy_level r = 5 \<and> crowd_level r = 5 \<and> vibe_tags r = JArray [JString ''Unknown'']
         \<and> confidence r = 0
         \<and> (\<exists>m. error r = Some m
              \<and> (m = [] \<longrightarrow>
                   (\<exists>e. analyze_body E u = Inl e \<and> exn_class e \<noteq> HTTPError \<and> exn_str e = []))))
     \<and> (\<forall>e. fetch_image_as_base64 E u = Inl e \<longrightarrow> analyze_body E u = Inl e)
     \<and> (\<forall>e d mt. fetch_image_as_base64 E u = Inr (d, mt) \<and> classify E mt d = Inl e \<longrightarrow>
           analyze_body E u = Inl e)
     \<and> (\<forall>d mt reply. fetch_image_as_base64 E u = Inr (d, mt) \<and> classify E mt d = Inr reply \<longrightarrow>
           analyze_body E u = parse_response E reply u)"
proof (cases "analyze_body E u")
  case (Inl e)
  let ?r = "degraded u (if exn_class e = HTTPError then ''Failed to fetch image''
                           else ''Analysis failed'')
              (if exn_class e = HTTPError then ''HTTP error: '' @ exn_str e else exn_str e)"
  have "analyze_image E u = Inr ?r"
    by (simp add: analyze_image_def Inl)
  moreover have "\<forall>e'. analyze_body E u = Inl e' \<longrightarrow>
           ?r = \<lparr>image_url = u, energy_level = 5, crowd_level = 5,
                vibe_tags = JArray [JString ''Unknown''],
                description = JString (if exn_class e' = HTTPError then ''Failed to fetch image''
                                       else ''Analysis failed''),
                confidence = 0, success = False,
                error = Some (if exn_class e' = HTTPError then ''HTTP error: '' @ exn_str e'
                              else exn_str e')\<rparr>"
    by (simp add: Inl degraded_def)
  moreover have "\<not> success ?r \<longrightarrow>
           energy_level ?r = 5 \<and> crowd_level ?r = 5 \<and> vibe_tags ?r = JArray [JString ''Unknown'']
         \<and> confidence ?r = 0
         \<and> (\<exists>m. error ?r = Some m
              \<and> (m = [] \<longrightarrow>
                   (\<exists>e. analyze_body E u = Inl e \<and> exn_class e \<noteq> HTTPError \<and> exn_str e = [])))"
    by (simp add: Inl degraded_def)
  ultimately show ?thesis
    using analyze_body_steps [of E u] by blast
next
  case (Inr r)
  have "analyze_image E u = Inr r"
    by (simp add: analyze_image_def Inr)
  moreover have "\<forall>e. analyze_body E u = Inl e \<longrightarrow>
           r = \<lparr>image_url = u, energy_level = 5, crowd_level = 5,
                vibe_tags = JArray [JString ''Unknown''],
                description = JString (if exn_class e = HTTPError then ''Failed to fetch image''
                                       else ''Analysis failed''),
                confidence = 0, success = False,
                error = Some (if exn_class e = HTTPError then ''HTTP error: '' @ exn_str e
                              else exn_str e)\<rparr>"
    by (simp add: Inr)
  moreover have "\<not> success r \<longrightarrow>
           energy_level r = 5 \<and> crowd_level r = 5 \<and> vibe_tags r = JArray [JString ''Unknown'']
         \<and> confidence r = 0
         \<and> (\<exists>m. error r = Some m
              \<and> (m = [] \<longrightarrow>
                   (\<exists>e. analyze_body E u = Inl e \<and> exn_class e \<noteq> HTTPError \<and> exn_str e = [])))"
    using analyze_body_failed [OF Inr] by (auto simp: degraded_def)
  ultimately show ?thesis
    using analyze_body_steps [of E u] by blast
qed

theorem analyze_image_never_raises_witness:
  "fetch_image_as_base64 (example_env (Inl (Exn HTTPError ''All connection attempts failed''))
       (Inr ''{}'') (decoder_at ''{}'' (JObject []))) thumb
     = Inl (Exn HTTPError ''All connection attempts failed'')
   \<and> analyze_image (example_env (Inl (Exn HTTPError ''All connection attempts failed''))
       (Inr ''{}'') (decoder_at ''{}'' (JObject []))) thumb =
       Inr \<lparr>image_url = thumb, energy_level = 5, crowd_level = 5,
            vibe_tags = JArray [JString ''Unknown''], description = JString ''Failed to fetch image'',
            confidence = 0, success = False,
            error = Some ''HTTP error: All connection attempts failed''\<rparr>"
proof -
  let ?E = "example_env (Inl (Exn HTTPError ''All connection attempts failed''))
       (Inr ''{}'') (decoder_at ''{}'' (JObject []))"
  have f: "fetch_image_as_base64 ?E thumb = Inl (Exn HTTPError ''All connection attempts failed'')"
    by (simp add: fetch_image_as_base64_def example_env_def and_then_def)
  from analyze_image_never_raises [of ?E thumb] f show ?thesis
    by auto
qed


section \<open>Properties of the scraper\<close>

subsection \<open>Media extraction\<close>

lemma visit_link_Added:
  "visit_link now l seen = Added it \<Longrightarrow>
     link_code l = Some (shortcode it) \<and> shortcode it \<notin> seen
     \<and> url it = ''https://www.instagram.com/p/'' @ shortcode it @ ''/''"
  by (auto simp: visit_link_def link_code_def split: sum.splits option.splits if_splits)

lemma visit_link_Marked:
  "visit_link now l seen = Marked c \<Longrightarrow> link_code l = Some c"
  by (auto simp: visit_link_def link_code_def split: sum.splits option.splits if_splits)

lemma extract_loop_length:
  "int (length (extract_loop m now ls seen items)) \<le> max m (int (length items))"
proof (induction ls arbitrary: seen items)
  case Nil
  show ?case by simp
next
  case (Cons l ls)
  show ?case
    using Cons [of seen items] Cons [of "insert c seen" items for c]
      Cons [of "insert (shortcode it) seen" "items @ [it]" for it]
    by (auto split: visit.splits)
qed

lemma extract_loop_distinct:
  "distinct (map shortcode items) \<Longrightarrow> shortcode ` set items \<subseteq> seen \<Longrightarrow>
   distinct (map shortcode (extract_loop m now ls seen items))"
proof (induction ls arbitrary: seen items)
  case Nil
  then show ?case by simp
next
  case (Cons l ls)
  show ?case
  proof (cases "m \<le> int (length items)")
    case True
    with Cons.prems show ?thesis by simp
  next
    case False
    show ?thesis
    proof (cases "visit_link now l seen")
      case Skipped
      with False Cons show ?thesis by simp
    next
      case (Marked c)
      with False Cons.IH [of items "insert c seen"] Cons.prems show ?thesis by auto
    next
      case (Added it)
      from visit_link_Added [OF Added] have "shortcode it \<notin> seen" by simp
      with Cons.prems have "distinct (map shortcode (items @ [it]))"
        and "shortcode ` set (items @ [it]) \<subseteq> insert (shortcode it) seen"
        by auto
      from Cons.IH [OF this] False Added show ?thesis by simp
    qed
  qed
qed

lemma extract_loop_order:
  "\<exists>ys. map shortcode (extract_loop m now ls seen items) = map shortcode items @ ys
        \<and> subseq ys (List.map_filter link_code ls)"
proof (induction ls arbitrary: seen items)
  case Nil
  show ?case by (simp add: List.map_filter_simps)
next
  case (Cons l ls)
  show ?case
  proof (cases "m \<le> int (length items)")
    case True
    then show ?thesis by simp
  next
    case False
    show ?thesis
    proof (cases "visit_link now l seen")
      case Skipped
      from Cons [of seen items] obtain ys where
        "map shortcode (extract_loop m now ls seen items) = map shortcode items @ ys"
        "subseq ys (List.map_filter link_code ls)" by blast
      with False Skipped show ?thesis
        by (auto simp: List.map_filter_simps split: option.splits)
    next
      case (Marked c)
      from Cons [of "insert c seen" items] obtain ys where
        "map shortcode (extract_loop m now ls (insert c seen) items) = map shortcode items @ ys"
        "subseq ys (List.map_filter link_code ls)" by blast
      with False Marked show ?thesis
        by (auto simp: List.map_filter_simps split: option.splits)
    next
      case (Added it)
      from Cons [of "insert (shortcode it) seen" "items @ [it]"] obtain ys where
        ys: "map shortcode (extract_loop m now ls (insert (shortcode it) seen) (items @ [it]))
          = map shortcode (items @ [it]) @ ys"
        "subseq ys (List.map_filter link_code ls)" by blast
      from visit_link_Added [OF Added] have "link_code l = Some (shortcode it)" by simp
      with ys(2) have "subseq (shortcode it # ys) (List.map_filter link_code (l # ls))"
        by (simp add: List.map_filter_simps)
      with ys(1) False Added show ?thesis by auto
    qed
  qed
qed

lemma extract_loop_break: "m \<le> 0 \<Longrightarrow> extract_loop m now ls {} [] = []"
  by (cases ls) simp_all

lemma map_filter_take_subseq:
  "subseq (List.map_filter f (take n xs)) (List.map_filter f xs)"
proof -
  have "prefix (List.map_filter f (take n xs)) (List.map_filter f xs)"
    unfolding List.map_filter_def
    by (intro map_mono_prefix filter_mono_prefix take_is_prefix)
  then show ?thesis by (rule prefix_imp_subseq)
qed

text \<open>The result of the extraction, for a non-negative and for a negative limit.\<close>

lemma extract_media_nonneg:
  "0 \<le> m \<Longrightarrow> extract_media_from_page (Inr links) m now =
     Inr (extract_loop m now (take (nat (2 * m)) links) {} [])"
  by (simp add: extract_media_from_page_def py_take_def mult.commute)

lemma extract_media_neg:
  "m \<le> 0 \<Longrightarrow> extract_media_from_page (Inr links) m now = Inr []"
  by (simp add: extract_media_from_page_def extract_loop_break)


lemma extract_grid:
  "extract_media_from_page (Inr grid) 2 clock =
     Inr [\<lparr>url = ''https://www.instagram.com/p/Cx1/'',
           thumbnail_url = ''https://cdn.example.com/1.jpg'', media_type = ''image'',
           shortcode = ''Cx1'', scraped_at = clock\<rparr>,
          \<lparr>url = ''https://www.instagram.com/p/Cy_2/'',
           thumbnail_url = ''https://cdn.example.com/2.jpg'', media_type = ''image'',
           shortcode = ''Cy_2'', scraped_at = clock\<rparr>]"
  by code_simp

text \<open>
  Claim C7. For every sequence of post links on the page and every \<^verbatim>\<open>max_items\<close>,
  the extraction returns a list of at most \<^verbatim>\<open>max_items\<close> items (none when
  \<^verbatim>\<open>max_items\<close> is not positive) whose shortcodes are pairwise distinct and stand in
  page order: they are a subsequence of the shortcodes of the first \<open>2 * max_items\<close>
  links, hence of those of the page. Only these first \<open>2 * max_items\<close> links are
  examined: a page that agrees with this one on them gives the same result.
\<close>

theorem extract_media_bounded_distinct_ordered:
  "\<exists>r. extract_media_from_page (Inr links) m now = Inr r
       \<and> int (length r) \<le> max 0 m
       \<and> distinct (map shortcode r)
       \<and> subseq (map shortcode r) (List.map_filter link_code (take (nat (2 * m)) links))
       \<and> subseq (map shortcode r) (List.map_filter link_code links)
       \<and> (\<forall>links'. take (nat (2 * m)) links' = take (nat (2 * m)) links \<longrightarrow>
             extract_media_from_page (Inr links') m now = Inr r)"
proof (cases "0 < m")
  case True
  let ?ls = "take (nat (2 * m)) links"
  let ?r = "extract_loop m now ?ls {} []"
  have r: "extract_media_from_page (Inr links) m now = Inr ?r"
    using True by (simp add: extract_media_nonneg)
  have len: "int (length ?r) \<le> max 0 m"
    using extract_loop_length [of m now ?ls "{}" "[]"] True by simp
  have dist: "distinct (map shortcode ?r)"
    by (rule extract_loop_distinct) simp_all
  have ord: "subseq (map shortcode ?r) (List.map_filter link_code ?ls)"
    using extract_loop_order [of m now ?ls "{}" "[]"] by auto
  have page: "subseq (map shortcode ?r) (List.map_filter link_code links)"
    using ord map_filter_take_subseq [of link_code "nat (2 * m)" links]
    by (rule subseq_order.trans)
  have same: "\<forall>links'. take (nat (2 * m)) links' = ?ls \<longrightarrow>
             extract_media_from_page (Inr links') m now = Inr ?r"
    using True by (simp add: extract_media_nonneg)
  from r len dist ord page same show ?thesis by blast
next
  case False
  then have "extract_media_from_page (Inr ls) m now = Inr []" for ls
    by (simp add: extract_media_neg)
  then show ?thesis by simp
qed

theorem extract_media_bounded_distinct_ordered_witness:
  "\<exists>r. extract_media_from_page (Inr grid) 2 clock = Inr r
       \<and> map shortcode r = [''Cx1'', ''Cy_2'']
       \<and> int (length r) \<le> max 0 2
       \<and> distinct (map shortcode r)
       \<and> subseq (map shortcode r) (List.map_filter link_code grid)"
  using extract_media_bounded_distinct_ordered [of grid 2 clock]
  by (auto simp: extract_grid)

subsection \<open>The browser session\<close>

lemma balanced_append: "balanced es \<Longrightarrow> balanced fs \<Longrightarrow> balanced (es @ fs)"
  by (induction es rule: balanced.induct) simp_all

text \<open>
  On the success path and on the error path a session is closed in the attempt that
  opened it: when the browser starts in every attempt and no attempt is rate limited,
  the log is balanced.
\<close>

lemma scrape_attempts_balanced:
  assumes "\<forall>n \<in> set ns. setup_browser (world n) = None
             \<and> try_body (world n) max_items now \<noteq> RateLimited"
    and "balanced trail"
  shows "balanced (snd (scrape_attempts world max_retries loc max_items now ns browser trail))"
  using assms
proof (induction ns arbitrary: browser trail)
  case Nil
  then show ?case by simp
next
  case (Cons n ns)
  from Cons.prems have s: "setup_browser (world n) = None"
    and nl: "try_body (world n) max_items now \<noteq> RateLimited"
    and rest: "\<forall>n \<in> set ns. setup_browser (world n) = None
             \<and> try_body (world n) max_items now \<noteq> RateLimited"
    by simp_all
  have b: "balanced (trail @ [Opened n, Closed n])"
    using Cons.prems(2) by (simp add: balanced_append)
  show ?case
  proof (cases "try_body (world n) max_items now")
    case (Raised e)
    with s b Cons.IH [OF rest b, of "Some n"] show ?thesis
      by (simp add: close_held_def)
  next
    case RateLimited
    with nl show ?thesis by simp
  next
    case (Extracted name items)
    with s b show ?thesis by simp
  qed
qed

lemma try_body_examples:
  "try_body limited_attempt 2 clock = RateLimited"
  "try_body ok_attempt 2 clock =
     Extracted (Some ''Club Nova'')
       [\<lparr>url = ''https://www.instagram.com/p/Cx1/'',
         thumbnail_url = ''https://cdn.example.com/1.jpg'', media_type = ''image'',
         shortcode = ''Cx1'', scraped_at = clock\<rparr>,
        \<lparr>url = ''https://www.instagram.com/p/Cy_2/'',
         thumbnail_url = ''https://cdn.example.com/2.jpg'', media_type = ''image'',
         shortcode = ''Cy_2'', scraped_at = clock\<rparr>]"
  by (simp_all add: try_body_def limited_attempt_def ok_attempt_def extract_grid)

text \<open>
  Claim C4 does not hold of the code on the rate-limit path. With status 429 in the
  first attempt and a normal page in the second, the scrape succeeds and its log is
  \<open>Opened 0, Opened 1, Closed 1\<close>: the session of the first attempt is never closed
  (the \<^verbatim>\<open>continue\<close> of line 207 leaves the \<^verbatim>\<open>try\<close> without passing a
  \<^verbatim>\<open>browser.close()\<close>). With status 429 in each of three attempts the scrape
  fails with \<^verbatim>\<open>Max retries exceeded\<close> and three sessions stay open.
\<close>

theorem rate_limit_leaves_session_open:
  "snd (scrape_location limited_once 3 venue 2 clock) = [Opened 0, Opened 1, Closed 1]
   \<and> Closed 0 \<notin> set (snd (scrape_location limited_once 3 venue 2 clock))
   \<and> scrape_success (fst (scrape_location limited_once 3 venue 2 clock))
   \<and> scrape_location limited_always 3 venue 2 clock =
       (\<lparr>location_url = venue, location_name = None, media_items = [],
         result_scraped_at = clock, scrape_success = False,
         scrape_error = Some ''Max retries exceeded''\<rparr>,
        [Opened 0, Opened 1, Opened 2])"
proof -
  have up: "[0..<3] = [0, Suc 0, Suc (Suc 0)]"
    by (simp add: upt_rec)
  have world:
    "setup_browser (limited_once n) = None" "setup_browser (limited_always n) = None"
    "try_body (limited_once 0) 2 clock = RateLimited"
    "try_body (limited_once (Suc k)) 2 clock = try_body ok_attempt 2 clock"
    "try_body (limited_always n) 2 clock = RateLimited" for n k
    by (simp_all add: limited_once_def limited_always_def try_body_examples)
      (simp_all add: limited_attempt_def ok_attempt_def)
  note world = world try_body_examples
  have once: "scrape_location limited_once 3 venue 2 clock =
      (\<lparr>location_url = venue, location_name = Some ''Club Nova'',
        media_items =
          [\<lparr>url = ''https://www.instagram.com/p/Cx1/'',
            thumbnail_url = ''https://cdn.example.com/1.jpg'', media_type = ''image'',
            shortcode = ''Cx1'', scraped_at = clock\<rparr>,
           \<lparr>url = ''https://www.instagram.com/p/Cy_2/'',
            thumbnail_url = ''https://cdn.example.com/2.jpg'', media_type = ''image'',
            shortcode = ''Cy_2'', scraped_at = clock\<rparr>],
        result_scraped_at = clock, scrape_success = True, scrape_error = None\<rparr>,
       [Opened 0, Opened 1, Closed 1])"
    by (simp add: scrape_location_def up world)
  have always: "scrape_location limited_always 3 venue 2 clock =
       (\<lparr>location_url = venue, location_name = None, media_items = [],
         result_scraped_at = clock, scrape_success = False,
         scrape_error = Some ''Max retries exceeded''\<rparr>,
        [Opened 0, Opened 1, Opened 2])"
    by (simp add: scrape_location_def up world failure_result_def)
  show ?thesis
    by (simp add: once always)
qed


section \<open>The two readings of the aggregator agree on string tags\<close>




















section \<open>Properties of the orchestrator\<close>

lemma scrape_page_result:
  "scrape_page page loc m =
     (case extract_media_from_page (Inr page) m clock of
        Inr items \<Rightarrow>
          (if items = []
           then (case extract_media_from_page (Inr page) m clock of
                   Inr items' \<Rightarrow>
                     \<lparr>location_url = loc, location_name = Some ''Club Nova'', media_items = items',
                      result_scraped_at = clock, scrape_success = True, scrape_error = None\<rparr>)
           else \<lparr>location_url = loc, location_name = Some ''Club Nova'', media_items = items,
                  result_scraped_at = clock, scrape_success = True, scrape_error = None\<rparr>))"
  by (simp add: scrape_page_def scrape_location_def upt_rec try_body_def ok_attempt_def
      extract_media_from_page_def)


lemma scrape_grid:
  "scrape_page grid venue 2 =
     \<lparr>location_url = venue, location_name = Some ''Club Nova'',
      media_items =
        [\<lparr>url = ''https://www.instagram.com/p/Cx1/'',
          thumbnail_url = ''https://cdn.example.com/1.jpg'', media_type = ''image'',
          shortcode = ''Cx1'', scraped_at = clock\<rparr>,
         \<lparr>url = ''https://www.instagram.com/p/Cy_2/'',
          thumbnail_url = ''https://cdn.example.com/2.jpg'', media_type = ''image'',
          shortcode = ''Cy_2'', scraped_at = clock\<rparr>],
      result_scraped_at = clock, scrape_success = True, scrape_error = None\<rparr>"
  by (simp add: scrape_page_result extract_grid)

lemma clean_text_replies:
  "clean_text techno_text = techno_text" "clean_text nested_text = nested_text"
  by code_simp+


lemma analyze_image_nested:
  "analyze_image (nested_env i) u =
     Inr \<lparr>image_url = u, energy_level = 8, crowd_level = 7,
          vibe_tags = JArray [JArray [JString ''Techno'']],
          description = JString ''Unable to analyze'', confidence = 9 / 10,
          success = True, error = None\<rparr>"
  apply (simp add: nested_env_def analyze_image_def analyze_body_example parse_response_def)
  apply (simp add: example_env_def clean_text_replies decoder_at_def and_then_def)
  apply (simp add: build_analysis_def nested_reply_def and_then_def py_get_def dict_get_def
      py_int_def py_slice4_def py_float_def clamp_level_def clamp_confidence_def)
  done

text \<open>
  A run in which the classifier replies with a list in the list of tags: the parser
  accepts the reply, the aggregator raises on the unhashable tag, and the orchestrator
  returns no report.
\<close>

lemma nested_tags_raise:
  "scout_location (scrape_page grid) nested_env venue 2 True =
     Inl (Exn TypeError (''unhashable type: '' @ quoted ''list''))"
  by (simp add: scout_location_def scrape_grid analyze_batch_def upt_rec analyze_image_nested
      and_then_def aggregate_vibes_dyn_def successful_def contributes_def count_tags_dyn_def
      iter_tags_def bump_tag_dyn_def key_of_def)






end
